theory Spec2Isabelle
  imports Main
begin

section \<open>Python values and the operations the services use on them\<close>

text \<open>
  The memory record is the Python dict that \<^verbatim>\<open>json.load\<close> returns or that
  \<^verbatim>\<open>_load_memories\<close> builds, so it is modelled as a JSON value. A dict is an
  association list in insertion order. Numbers are integers (the services store no
  fractions) and a string is the list of its characters. \<^verbatim>\<open>str.lower\<close> is a
  parameter \<open>lower\<close> of every function that calls it, so that nothing depends on
  which characters have a lower case.
\<close>

datatype json =
    JNull
  | JBool bool
  | JInt int
  | JStr string
  | JList "json list"
  | JDict "(string \<times> json) list"

datatype py_error =
    KeyError
  | TypeError
  | AttributeError
  | JSONDecodeError
  | UnicodeDecodeError
  | RecursionError
  | ValueError
  | OSError

type_synonym 'a result = "py_error + 'a"

text \<open>\<^verbatim>\<open>d[k]\<close> with a string key: only a dict accepts it.\<close>

fun py_getitem :: "json \<Rightarrow> string \<Rightarrow> json result" where
  "py_getitem (JDict kvs) k = (case map_of kvs k of None \<Rightarrow> Inl KeyError | Some v \<Rightarrow> Inr v)"
| "py_getitem _ k = Inl TypeError"

text \<open>\<^verbatim>\<open>d.get(k, default)\<close>: only a dict has the method.\<close>

fun py_get :: "json \<Rightarrow> string \<Rightarrow> json \<Rightarrow> json result" where
  "py_get (JDict kvs) k dflt = (case map_of kvs k of None \<Rightarrow> Inr dflt | Some v \<Rightarrow> Inr v)"
| "py_get _ k dflt = Inl AttributeError"

text \<open>
  \<^verbatim>\<open>d[k] = v\<close>: an existing key keeps its position, a new key goes last.
\<close>

fun dict_set :: "(string \<times> json) list \<Rightarrow> string \<Rightarrow> json \<Rightarrow> (string \<times> json) list" where
  "dict_set [] k v = [(k, v)]"
| "dict_set ((k', v') # kvs) k v = (if k' = k then (k, v) # kvs else (k', v') # dict_set kvs k v)"

fun py_setitem :: "json \<Rightarrow> string \<Rightarrow> json \<Rightarrow> json result" where
  "py_setitem (JDict kvs) k v = Inr (JDict (dict_set kvs k v))"
| "py_setitem _ k v = Inl TypeError"

text \<open>Truth value of an object in \<^verbatim>\<open>if x:\<close>.\<close>

fun truthy :: "json \<Rightarrow> bool" where
  "truthy JNull = False"
| "truthy (JBool b) = b"
| "truthy (JInt n) = (n \<noteq> 0)"
| "truthy (JStr s) = (s \<noteq> [])"
| "truthy (JList xs) = (xs \<noteq> [])"
| "truthy (JDict kvs) = (kvs \<noteq> [])"

text \<open>
  \<^verbatim>\<open>for x in v\<close>: a list yields its elements, a dict its keys, a string its
  characters; nothing else is iterable.
\<close>

fun py_iter :: "json \<Rightarrow> json list result" where
  "py_iter (JList xs) = Inr xs"
| "py_iter (JDict kvs) = Inr (map (\<lambda>kv. JStr (fst kv)) kvs)"
| "py_iter (JStr s) = Inr (map (\<lambda>c. JStr [c]) s)"
| "py_iter _ = Inl TypeError"

text \<open>\<^verbatim>\<open>v.append(x)\<close>: only a list has the method.\<close>

fun py_append :: "json \<Rightarrow> json \<Rightarrow> json result" where
  "py_append (JList xs) x = Inr (JList (xs @ [x]))"
| "py_append _ x = Inl AttributeError"

text \<open>
  The slices \<^verbatim>\<open>v[:n]\<close> and \<^verbatim>\<open>v[-n:]\<close> for a positive literal \<open>n\<close>. Lists and
  strings can be sliced; a dict rejects the slice as a key.
\<close>

definition last_n :: "nat \<Rightarrow> 'a list \<Rightarrow> 'a list" where
  "last_n n xs = drop (length xs - n) xs"

fun py_slice_first :: "nat \<Rightarrow> json \<Rightarrow> json result" where
  "py_slice_first n (JList xs) = Inr (JList (take n xs))"
| "py_slice_first n (JStr s) = Inr (JStr (take n s))"
| "py_slice_first n _ = Inl TypeError"

fun py_slice_last :: "nat \<Rightarrow> json \<Rightarrow> json result" where
  "py_slice_last n (JList xs) = Inr (JList (last_n n xs))"
| "py_slice_last n (JStr s) = Inr (JStr (last_n n s))"
| "py_slice_last n _ = Inl TypeError"

text \<open>\<^verbatim>\<open>s.lower()\<close>: only a string has the method.\<close>

fun py_lower :: "(string \<Rightarrow> string) \<Rightarrow> json \<Rightarrow> string result" where
  "py_lower lower (JStr s) = Inr (lower s)"
| "py_lower lower _ = Inl AttributeError"

text \<open>
  \<^verbatim>\<open>str.lower\<close> on strings of characters below 256, for the examples: the
  letters A to Z and the accented capitals 192 to 222, without the sign 215, move
  up by 32.
\<close>

definition str_lower_char :: "char \<Rightarrow> char" where
  "str_lower_char c =
     (let n = (of_char c :: nat)
      in if (65 \<le> n \<and> n \<le> 90) \<or> (192 \<le> n \<and> n \<le> 222 \<and> n \<noteq> 215)
         then char_of (n + 32) else c)"

definition str_lower :: "string \<Rightarrow> string" where
  "str_lower s = map str_lower_char s"

text \<open>\<^verbatim>\<open>sep.join(v)\<close>: every item of the iterable must be a string.\<close>

fun join :: "string \<Rightarrow> string list \<Rightarrow> string" where
  "join sep [] = []"
| "join sep [x] = x"
| "join sep (x # y # ys) = x @ sep @ join sep (y # ys)"

fun the_strings :: "json list \<Rightarrow> string list result" where
  "the_strings [] = Inr []"
| "the_strings (JStr s # js) = (case the_strings js of Inl e \<Rightarrow> Inl e | Inr ss \<Rightarrow> Inr (s # ss))"
| "the_strings (_ # js) = Inl TypeError"

definition py_join :: "string \<Rightarrow> json \<Rightarrow> string result" where
  "py_join sep v =
     (case py_iter v of Inl e \<Rightarrow> Inl e
      | Inr items \<Rightarrow> (case the_strings items of Inl e \<Rightarrow> Inl e | Inr ss \<Rightarrow> Inr (join sep ss)))"

text \<open>Decimal digits of an integer, as \<^verbatim>\<open>str(n)\<close> prints them.\<close>

fun str_nat :: "nat \<Rightarrow> string" where
  "str_nat n =
     (if n < 10 then [char_of (48 + n)] else str_nat (n div 10) @ [char_of (48 + n mod 10)])"

declare str_nat.simps [simp del]

definition str_int :: "int \<Rightarrow> string" where
  "str_int i = (if i < 0 then CHR ''-'' # str_nat (nat (- i)) else str_nat (nat i))"

text \<open>
  \<^verbatim>\<open>repr(s)\<close> of a string: single quotes unless the string has a single quote and
  no double quote; the quote and the backslash are escaped, control characters are
  written \<^verbatim>\<open>\t\<close>, \<^verbatim>\<open>\n\<close>, \<^verbatim>\<open>\r\<close> or \<^verbatim>\<open>\xhh\<close>.
\<close>

definition hex_digit :: "nat \<Rightarrow> char" where
  "hex_digit d = (if d < 10 then char_of (48 + d) else char_of (87 + d))"

definition repr_char :: "char \<Rightarrow> char \<Rightarrow> string" where
  "repr_char q c =
     (let n = (of_char c :: nat) in
      if c = q \<or> n = 92 then [char_of (92::nat), c]
      else if n = 9 then [char_of (92::nat), CHR ''t'']
      else if n = 10 then [char_of (92::nat), CHR ''n'']
      else if n = 13 then [char_of (92::nat), CHR ''r'']
      else if n < 32 \<or> n = 127 then [char_of (92::nat), CHR ''x'', hex_digit (n div 16), hex_digit (n mod 16)]
      else [c])"

definition repr_str :: "string \<Rightarrow> string" where
  "repr_str s =
     (let q = (if char_of (39::nat) \<in> set s \<and> CHR ''\"'' \<notin> set s then CHR ''\"'' else char_of (39::nat))
      in q # concat (map (repr_char q) s) @ [q])"

fun py_repr :: "json \<Rightarrow> string"
  and repr_items :: "json list \<Rightarrow> string list"
  and repr_pairs :: "(string \<times> json) list \<Rightarrow> string list" where
  "py_repr JNull = ''None''"
| "py_repr (JBool b) = (if b then ''True'' else ''False'')"
| "py_repr (JInt n) = str_int n"
| "py_repr (JStr s) = repr_str s"
| "py_repr (JList xs) = ''['' @ join '', '' (repr_items xs) @ '']''"
| "py_repr (JDict kvs) = ''{'' @ join '', '' (repr_pairs kvs) @ ''}''"
| "repr_items [] = []"
| "repr_items (x # xs) = py_repr x # repr_items xs"
| "repr_pairs [] = []"
| "repr_pairs ((k, v) # kvs) = (repr_str k @ '': '' @ py_repr v) # repr_pairs kvs"

text \<open>\<^verbatim>\<open>str(v)\<close>, which an f-string applies to each value it prints.\<close>

fun py_str :: "json \<Rightarrow> string" where
  "py_str (JStr s) = s"
| "py_str v = py_repr v"

text \<open>\<^verbatim>\<open>v + 1\<close>, \<^verbatim>\<open>v > 0\<close> and \<^verbatim>\<open>v == 1\<close>: a bool counts as 0 or 1.\<close>

fun py_add1 :: "json \<Rightarrow> json result" where
  "py_add1 (JInt n) = Inr (JInt (n + 1))"
| "py_add1 (JBool b) = Inr (JInt ((if b then 1 else 0) + 1))"
| "py_add1 _ = Inl TypeError"

fun py_positive :: "json \<Rightarrow> bool result" where
  "py_positive (JInt n) = Inr (0 < n)"
| "py_positive (JBool b) = Inr b"
| "py_positive _ = Inl TypeError"

fun py_is_one :: "json \<Rightarrow> bool" where
  "py_is_one (JInt n) = (n = 1)"
| "py_is_one (JBool b) = b"
| "py_is_one _ = False"


section \<open>The memory store (memory_service.py)\<close>

text \<open>
  A \<^verbatim>\<open>UserMemory\<close> object has the user id, the user name given to the constructor
  and the record \<^verbatim>\<open>memories\<close>. Its file is \<^verbatim>\<open>MEMORY_DIR / f"{user_id}.json"\<close>.

  The content of a file is represented by what \<^verbatim>\<open>open\<close> and \<^verbatim>\<open>json.load\<close>
  make of it: the value that \<^verbatim>\<open>json.load\<close> returns, or the exception that the
  read raises. That is \<^verbatim>\<open>JSONDecodeError\<close> for a text that is not JSON,
  \<^verbatim>\<open>UnicodeDecodeError\<close> for bytes that are not text in the encoding of
  \<^verbatim>\<open>open\<close>, \<^verbatim>\<open>RecursionError\<close> for a text nested deeper than the parser's
  recursion allows, \<^verbatim>\<open>ValueError\<close> for a number with more digits than the
  conversion to \<^verbatim>\<open>int\<close> accepts, \<^verbatim>\<open>OSError\<close> for a file that cannot be opened.
  \<^verbatim>\<open>json.dump\<close> writes a text that parses back to the dumped value. Each reading
  of \<^verbatim>\<open>datetime.now().isoformat()\<close> is an argument of the function that takes it.
\<close>

record user_memory =
  user_id :: string
  user_name :: string
  memories :: json

datatype file_content = JsonText json | Unreadable py_error

abbreviation NotJson :: file_content where
  "NotJson \<equiv> Unreadable JSONDecodeError"

type_synonym files = "string \<rightharpoonup> file_content"

type_synonym store = "user_memory \<times> files"

definition memory_file :: "string \<Rightarrow> string" where
  "memory_file uid = uid @ ''.json''"

fun json_load :: "file_content \<Rightarrow> json result" where
  "json_load (JsonText j) = Inr j"
| "json_load (Unreadable e) = Inl e"

definition new_memories :: "string \<Rightarrow> string \<Rightarrow> json" where
  "new_memories uname now =
     JDict [
       (''user_name'', JStr uname),
       (''created_at'', JStr now),
       (''last_conversation'', JNull),
       (''profile'', JDict [
          (''family_members'', JList []),
          (''health_notes'', JList []),
          (''interests'', JList []),
          (''important_dates'', JList []),
          (''location'', JNull),
          (''occupation'', JNull)]),
       (''stories'', JList []),
       (''recent_topics'', JList []),
       (''conversation_count'', JInt 0)]"

text \<open>
  \<^verbatim>\<open>_load_memories\<close>: of the exceptions of the read, only \<^verbatim>\<open>JSONDecodeError\<close>
  is caught and leads on to the new structure; any other one leaves the function and
  the constructor.
\<close>

definition load_memories :: "files \<Rightarrow> string \<Rightarrow> string \<Rightarrow> string \<Rightarrow> json result" where
  "load_memories fs uid uname now =
     (case fs (memory_file uid) of
        Some content \<Rightarrow>
          (case json_load content of
             Inr j \<Rightarrow> Inr j
           | Inl e \<Rightarrow> if e = JSONDecodeError then Inr (new_memories uname now) else Inl e)
      | None \<Rightarrow> Inr (new_memories uname now))"

definition UserMemory :: "files \<Rightarrow> string \<Rightarrow> string \<Rightarrow> string \<Rightarrow> user_memory result" where
  "UserMemory fs uid uname now =
     (case load_memories fs uid uname now of
        Inl e \<Rightarrow> Inl e
      | Inr m \<Rightarrow> Inr \<lparr>user_id = uid, user_name = uname, memories = m\<rparr>)"

text \<open>
  \<^verbatim>\<open>save\<close>: the assignment to \<^verbatim>\<open>last_conversation\<close>, then the dump of the whole
  record to the file. A mutator that raises does so before it has changed anything.
\<close>

definition save :: "string \<Rightarrow> store \<Rightarrow> store result" where
  "save now st =
     (case st of (um, fs) \<Rightarrow>
        (case py_setitem (memories um) ''last_conversation'' (JStr now) of
           Inl e \<Rightarrow> Inl e
         | Inr m \<Rightarrow> Inr (um\<lparr>memories := m\<rparr>, fs(memory_file (user_id um) \<mapsto> JsonText m))))"

text \<open>
  \<^verbatim>\<open>memories["profile"][key]\<close> read, and the same object replaced or mutated in
  place.
\<close>

definition profile_field :: "json \<Rightarrow> string \<Rightarrow> json result" where
  "profile_field m key =
     (case py_getitem m ''profile'' of Inl e \<Rightarrow> Inl e | Inr p \<Rightarrow> py_getitem p key)"

definition set_profile_field :: "json \<Rightarrow> string \<Rightarrow> json \<Rightarrow> json result" where
  "set_profile_field m key v =
     (case py_getitem m ''profile'' of
        Inl e \<Rightarrow> Inl e
      | Inr p \<Rightarrow>
          (case py_setitem p key v of Inl e \<Rightarrow> Inl e | Inr p' \<Rightarrow> py_setitem m ''profile'' p'))"

definition increment_conversation :: "string \<Rightarrow> store \<Rightarrow> store result" where
  "increment_conversation now st =
     (case st of (um, fs) \<Rightarrow>
        (case py_get (memories um) ''conversation_count'' (JInt 0) of
           Inl e \<Rightarrow> Inl e
         | Inr c \<Rightarrow>
             (case py_add1 c of
                Inl e \<Rightarrow> Inl e
              | Inr c' \<Rightarrow>
                  (case py_setitem (memories um) ''conversation_count'' c' of
                     Inl e \<Rightarrow> Inl e
                   | Inr m \<Rightarrow> save now (um\<lparr>memories := m\<rparr>, fs)))))"

text \<open>
  The loop of \<^verbatim>\<open>add_family_member\<close> over the members: \<open>Some\<close> of the list with the
  first matching member updated in place, or \<open>None\<close> when the loop ends without a
  match. A match needs a member that is a dict, which only the items of a list can be
  (a dict yields its keys, a string its characters), so the updated members are
  written back as a list.
\<close>

fun update_member :: "(string \<Rightarrow> string) \<Rightarrow> json list \<Rightarrow> json \<Rightarrow> json \<Rightarrow> json \<Rightarrow> json list option result" where
  "update_member lower [] name relation details = Inr None"
| "update_member lower (member # rest) name relation details =
     (case py_getitem member ''name'' of
        Inl e \<Rightarrow> Inl e
      | Inr n \<Rightarrow>
          (case py_lower lower n of
             Inl e \<Rightarrow> Inl e
           | Inr l \<Rightarrow>
               (case py_lower lower name of
                  Inl e \<Rightarrow> Inl e
                | Inr l' \<Rightarrow>
                    if l = l' then
                      (case py_setitem member ''relation'' relation of
                         Inl e \<Rightarrow> Inl e
                       | Inr member' \<Rightarrow>
                           if truthy details then
                             (case py_setitem member' ''details'' details of
                                Inl e \<Rightarrow> Inl e
                              | Inr member'' \<Rightarrow> Inr (Some (member'' # rest)))
                           else Inr (Some (member' # rest)))
                    else
                      (case update_member lower rest name relation details of
                         Inl e \<Rightarrow> Inl e
                       | Inr None \<Rightarrow> Inr None
                       | Inr (Some rest') \<Rightarrow> Inr (Some (member # rest'))))))"

definition add_family_member :: "(string \<Rightarrow> string) \<Rightarrow> string \<Rightarrow> json \<Rightarrow> json \<Rightarrow> json \<Rightarrow> store \<Rightarrow> store result" where
  "add_family_member lower now name relation details st =
     (case st of (um, fs) \<Rightarrow>
        (case profile_field (memories um) ''family_members'' of
           Inl e \<Rightarrow> Inl e
         | Inr family \<Rightarrow>
             (case py_iter family of
                Inl e \<Rightarrow> Inl e
              | Inr members \<Rightarrow>
                  (case update_member lower members name relation details of
                     Inl e \<Rightarrow> Inl e
                   | Inr (Some members') \<Rightarrow>
                       (case set_profile_field (memories um) ''family_members'' (JList members') of
                          Inl e \<Rightarrow> Inl e
                        | Inr m \<Rightarrow> save now (um\<lparr>memories := m\<rparr>, fs))
                   | Inr None \<Rightarrow>
                       (case py_append family
                               (JDict [(''name'', name), (''relation'', relation), (''details'', details)]) of
                          Inl e \<Rightarrow> Inl e
                        | Inr family' \<Rightarrow>
                            (case set_profile_field (memories um) ''family_members'' family' of
                               Inl e \<Rightarrow> Inl e
                             | Inr m \<Rightarrow> save now (um\<lparr>memories := m\<rparr>, fs)))))))"

text \<open>The list comprehension \<^verbatim>\<open>[i.lower() for i in interests]\<close>.\<close>

fun lower_all :: "(string \<Rightarrow> string) \<Rightarrow> json list \<Rightarrow> string list result" where
  "lower_all lower [] = Inr []"
| "lower_all lower (i # rest) =
     (case py_lower lower i of
        Inl e \<Rightarrow> Inl e
      | Inr l \<Rightarrow> (case lower_all lower rest of Inl e \<Rightarrow> Inl e | Inr ls \<Rightarrow> Inr (l # ls)))"

definition add_interest :: "(string \<Rightarrow> string) \<Rightarrow> string \<Rightarrow> json \<Rightarrow> store \<Rightarrow> store result" where
  "add_interest lower now interest st =
     (case st of (um, fs) \<Rightarrow>
        (case profile_field (memories um) ''interests'' of
           Inl e \<Rightarrow> Inl e
         | Inr interests \<Rightarrow>
             (case py_lower lower interest of
                Inl e \<Rightarrow> Inl e
              | Inr l \<Rightarrow>
                  (case py_iter interests of
                     Inl e \<Rightarrow> Inl e
                   | Inr items \<Rightarrow>
                       (case lower_all lower items of
                          Inl e \<Rightarrow> Inl e
                        | Inr ls \<Rightarrow>
                            if l \<notin> set ls then
                              (case py_append interests interest of
                                 Inl e \<Rightarrow> Inl e
                               | Inr interests' \<Rightarrow>
                                   (case set_profile_field (memories um) ''interests'' interests' of
                                      Inl e \<Rightarrow> Inl e
                                    | Inr m \<Rightarrow> save now (um\<lparr>memories := m\<rparr>, fs)))
                            else Inr (um, fs))))))"

definition add_health_note :: "string \<Rightarrow> json \<Rightarrow> store \<Rightarrow> store result" where
  "add_health_note now note st =
     (case st of (um, fs) \<Rightarrow>
        (case profile_field (memories um) ''health_notes'' of
           Inl e \<Rightarrow> Inl e
         | Inr notes \<Rightarrow>
             (case py_append notes note of
                Inl e \<Rightarrow> Inl e
              | Inr notes' \<Rightarrow>
                  (case py_slice_last 10 notes' of
                     Inl e \<Rightarrow> Inl e
                   | Inr kept \<Rightarrow>
                       (case set_profile_field (memories um) ''health_notes'' kept of
                          Inl e \<Rightarrow> Inl e
                        | Inr m \<Rightarrow> save now (um\<lparr>memories := m\<rparr>, fs))))))"

definition add_recent_topic :: "string \<Rightarrow> json \<Rightarrow> store \<Rightarrow> store result" where
  "add_recent_topic now topic st =
     (case st of (um, fs) \<Rightarrow>
        (case py_getitem (memories um) ''recent_topics'' of
           Inl e \<Rightarrow> Inl e
         | Inr topics \<Rightarrow>
             (case py_append topics topic of
                Inl e \<Rightarrow> Inl e
              | Inr topics' \<Rightarrow>
                  (case py_slice_last 5 topics' of
                     Inl e \<Rightarrow> Inl e
                   | Inr kept \<Rightarrow>
                       (case py_setitem (memories um) ''recent_topics'' kept of
                          Inl e \<Rightarrow> Inl e
                        | Inr m \<Rightarrow> save now (um\<lparr>memories := m\<rparr>, fs))))))"

text \<open>
  \<^verbatim>\<open>add_story\<close> reads the clock twice: \<open>date\<close> for the story, \<open>now\<close> in
  \<^verbatim>\<open>save\<close>.
\<close>

definition add_story :: "string \<Rightarrow> string \<Rightarrow> json \<Rightarrow> store \<Rightarrow> store result" where
  "add_story date now summary st =
     (case st of (um, fs) \<Rightarrow>
        (case py_getitem (memories um) ''stories'' of
           Inl e \<Rightarrow> Inl e
         | Inr stories \<Rightarrow>
             (case py_append stories (JDict [(''summary'', summary), (''date'', JStr date)]) of
                Inl e \<Rightarrow> Inl e
              | Inr stories' \<Rightarrow>
                  (case py_slice_last 20 stories' of
                     Inl e \<Rightarrow> Inl e
                   | Inr kept \<Rightarrow>
                       (case py_setitem (memories um) ''stories'' kept of
                          Inl e \<Rightarrow> Inl e
                        | Inr m \<Rightarrow> save now (um\<lparr>memories := m\<rparr>, fs))))))"


subsection \<open>The context summary\<close>

definition newline :: string where
  "newline = [CHR 0x0A]"

text \<open>
  The list comprehension over \<^verbatim>\<open>family[:5]\<close>: name and relation, then the details
  when \<^verbatim>\<open>m.get('details')\<close> is true.
\<close>

fun format_members :: "json list \<Rightarrow> string list result" where
  "format_members [] = Inr []"
| "format_members (m # ms) =
     (case py_getitem m ''name'' of
        Inl e \<Rightarrow> Inl e
      | Inr n \<Rightarrow>
          (case py_getitem m ''relation'' of
             Inl e \<Rightarrow> Inl e
           | Inr r \<Rightarrow>
               (case py_get m ''details'' JNull of
                  Inl e \<Rightarrow> Inl e
                | Inr d \<Rightarrow>
                    (case format_members ms of
                       Inl e \<Rightarrow> Inl e
                     | Inr rest \<Rightarrow>
                         Inr ((py_str n @ '' ('' @ py_str r @ '')''
                               @ (if truthy d then '' - '' @ py_str d else [])) # rest)))))"

definition family_part :: "json \<Rightarrow> string list \<Rightarrow> string list result" where
  "family_part profile parts =
     (case py_get profile ''family_members'' (JList []) of
        Inl e \<Rightarrow> Inl e
      | Inr family \<Rightarrow>
          if truthy family then
            (case py_slice_first 5 family of
               Inl e \<Rightarrow> Inl e
             | Inr shown \<Rightarrow>
                 (case py_iter shown of
                    Inl e \<Rightarrow> Inl e
                  | Inr ms \<Rightarrow>
                      (case format_members ms of
                         Inl e \<Rightarrow> Inl e
                       | Inr strs \<Rightarrow> Inr (parts @ [''Family: '' @ join '', '' strs]))))
          else Inr parts)"

definition health_part :: "json \<Rightarrow> string list \<Rightarrow> string list result" where
  "health_part profile parts =
     (case py_get profile ''health_notes'' (JList []) of
        Inl e \<Rightarrow> Inl e
      | Inr health \<Rightarrow>
          if truthy health then
            (case py_slice_last 3 health of
               Inl e \<Rightarrow> Inl e
             | Inr shown \<Rightarrow>
                 (case py_join ''; '' shown of
                    Inl e \<Rightarrow> Inl e
                  | Inr s \<Rightarrow> Inr (parts @ [''Health notes: '' @ s])))
          else Inr parts)"

definition interests_part :: "json \<Rightarrow> string list \<Rightarrow> string list result" where
  "interests_part profile parts =
     (case py_get profile ''interests'' (JList []) of
        Inl e \<Rightarrow> Inl e
      | Inr interests \<Rightarrow>
          if truthy interests then
            (case py_slice_first 5 interests of
               Inl e \<Rightarrow> Inl e
             | Inr shown \<Rightarrow>
                 (case py_join '', '' shown of
                    Inl e \<Rightarrow> Inl e
                  | Inr s \<Rightarrow> Inr (parts @ [''Interests: '' @ s])))
          else Inr parts)"

definition recent_part :: "json \<Rightarrow> string list \<Rightarrow> string list result" where
  "recent_part m parts =
     (case py_get m ''recent_topics'' (JList []) of
        Inl e \<Rightarrow> Inl e
      | Inr recent \<Rightarrow>
          if truthy recent then
            (case py_slice_last 3 recent of
               Inl e \<Rightarrow> Inl e
             | Inr shown \<Rightarrow>
                 (case py_join '', '' shown of
                    Inl e \<Rightarrow> Inl e
                  | Inr s \<Rightarrow> Inr (parts @ [''Recent conversation topics: '' @ s])))
          else Inr parts)"

definition count_part :: "json \<Rightarrow> string \<Rightarrow> string list \<Rightarrow> string list result" where
  "count_part m uname parts =
     (case py_get m ''conversation_count'' (JInt 0) of
        Inl e \<Rightarrow> Inl e
      | Inr count \<Rightarrow>
          (case py_positive count of
             Inl e \<Rightarrow> Inl e
           | Inr pos \<Rightarrow>
               if pos then
                 Inr (parts @ [''You've had '' @ py_str count @ '' conversations with '' @ uname])
               else Inr parts))"

text \<open>
  \<^verbatim>\<open>get_context_for_conversation\<close>: the sections append to \<^verbatim>\<open>context_parts\<close> in
  the order of the source; the name is the one given to the constructor.
\<close>

definition get_context_for_conversation :: "user_memory \<Rightarrow> string result" where
  "get_context_for_conversation um =
     (case py_get (memories um) ''profile'' (JDict []) of
        Inl e \<Rightarrow> Inl e
      | Inr profile \<Rightarrow>
          (case family_part profile [''User's name: '' @ user_name um] of
             Inl e \<Rightarrow> Inl e
           | Inr parts1 \<Rightarrow>
               (case health_part profile parts1 of
                  Inl e \<Rightarrow> Inl e
                | Inr parts2 \<Rightarrow>
                    (case interests_part profile parts2 of
                       Inl e \<Rightarrow> Inl e
                     | Inr parts3 \<Rightarrow>
                         (case recent_part (memories um) parts3 of
                            Inl e \<Rightarrow> Inl e
                          | Inr parts4 \<Rightarrow>
                              (case count_part (memories um) (user_name um) parts4 of
                                 Inl e \<Rightarrow> Inl e
                               | Inr parts5 \<Rightarrow> Inr (join newline parts5)))))))"

subsection \<open>The registry of loaded records\<close>



subsection \<open>Extraction\<close>

text \<open>
  A call of the provider returns a response with a text, or raises. The span
  \<^verbatim>\<open>re.search(r'\{.*\}', text, re.DOTALL)\<close> starts at the first opening brace and,
  the star being greedy and the dot matching newlines, ends at the last closing brace
  after it. \<^verbatim>\<open>json.loads\<close> is a parameter: \<open>None\<close> stands for
  \<^verbatim>\<open>JSONDecodeError\<close>.
\<close>

datatype provider_outcome = Reply string | Failure

definition json_span :: "string \<Rightarrow> string option" where
  "json_span text =
     (let from_open = dropWhile (\<lambda>c. c \<noteq> CHR ''{'') text;
          to_close = rev (dropWhile (\<lambda>c. c \<noteq> CHR ''}'') (rev from_open))
      in if to_close = [] then None else Some to_close)"

text \<open>
  The mutators called in the loops read the clock; \<open>clock t\<close> is the time at
  step \<open>t\<close> of the extraction, and each call takes the steps at which it may read
  the clock. A loop stops at the first call that raises, with the store as the calls
  before it left it.
\<close>

type_synonym clock = "nat \<Rightarrow> string"

fun for_each ::
  "(json \<Rightarrow> store \<times> nat \<Rightarrow> (store \<times> nat) result) \<Rightarrow> json list \<Rightarrow> store \<times> nat
     \<Rightarrow> py_error option \<times> store \<times> nat" where
  "for_each body [] s = (None, s)"
| "for_each body (x # xs) s =
     (case body x s of Inl e \<Rightarrow> (Some e, s) | Inr s' \<Rightarrow> for_each body xs s')"

definition loop_over ::
  "json \<Rightarrow> string \<Rightarrow> (json \<Rightarrow> store \<times> nat \<Rightarrow> (store \<times> nat) result) \<Rightarrow> store \<times> nat
     \<Rightarrow> py_error option \<times> store \<times> nat" where
  "loop_over extracted key body s =
     (case py_get extracted key (JList []) of
        Inl e \<Rightarrow> (Some e, s)
      | Inr v \<Rightarrow> (case py_iter v of Inl e \<Rightarrow> (Some e, s) | Inr items \<Rightarrow> for_each body items s))"

definition family_body :: "(string \<Rightarrow> string) \<Rightarrow> clock \<Rightarrow> json \<Rightarrow> store \<times> nat \<Rightarrow> (store \<times> nat) result" where
  "family_body lower clock member s =
     (case s of (st, t) \<Rightarrow>
        (case py_get member ''name'' JNull of
           Inl e \<Rightarrow> Inl e
         | Inr n \<Rightarrow>
             if truthy n then
               (case py_getitem member ''name'' of
                  Inl e \<Rightarrow> Inl e
                | Inr name \<Rightarrow>
                    (case py_get member ''relation'' (JStr ''family'') of
                       Inl e \<Rightarrow> Inl e
                     | Inr relation \<Rightarrow>
                         (case py_get member ''details'' (JStr []) of
                            Inl e \<Rightarrow> Inl e
                          | Inr details \<Rightarrow>
                              (case add_family_member lower (clock t) name relation details st of
                                 Inl e \<Rightarrow> Inl e
                               | Inr st' \<Rightarrow> Inr (st', Suc t)))))
             else Inr (st, t)))"

definition interest_body :: "(string \<Rightarrow> string) \<Rightarrow> clock \<Rightarrow> json \<Rightarrow> store \<times> nat \<Rightarrow> (store \<times> nat) result" where
  "interest_body lower clock interest s =
     (case s of (st, t) \<Rightarrow>
        (case add_interest lower (clock t) interest st of
           Inl e \<Rightarrow> Inl e
         | Inr st' \<Rightarrow> Inr (st', Suc t)))"

definition health_body :: "clock \<Rightarrow> json \<Rightarrow> store \<times> nat \<Rightarrow> (store \<times> nat) result" where
  "health_body clock health s =
     (case s of (st, t) \<Rightarrow>
        (case add_health_note (clock t) health st of
           Inl e \<Rightarrow> Inl e
         | Inr st' \<Rightarrow> Inr (st', Suc t)))"

definition story_body :: "clock \<Rightarrow> json \<Rightarrow> store \<times> nat \<Rightarrow> (store \<times> nat) result" where
  "story_body clock story s =
     (case s of (st, t) \<Rightarrow>
        (case add_story (clock t) (clock (Suc t)) story st of
           Inl e \<Rightarrow> Inl e
         | Inr st' \<Rightarrow> Inr (st', Suc (Suc t))))"

definition topic_body :: "clock \<Rightarrow> json \<Rightarrow> store \<times> nat \<Rightarrow> (store \<times> nat) result" where
  "topic_body clock topic s =
     (case s of (st, t) \<Rightarrow>
        (case add_recent_topic (clock t) topic st of
           Inl e \<Rightarrow> Inl e
         | Inr st' \<Rightarrow> Inr (st', Suc t)))"

definition and_then ::
  "py_error option \<times> store \<times> nat \<Rightarrow> (store \<times> nat \<Rightarrow> py_error option \<times> store \<times> nat)
     \<Rightarrow> py_error option \<times> store \<times> nat" where
  "and_then r next_loop = (case r of (Some e, s) \<Rightarrow> (Some e, s) | (None, s) \<Rightarrow> next_loop s)"

definition update_memory :: "(string \<Rightarrow> string) \<Rightarrow> clock \<Rightarrow> json \<Rightarrow> store \<Rightarrow> py_error option \<times> store \<times> nat" where
  "update_memory lower clock extracted st =
     and_then (and_then (and_then (and_then
       (loop_over extracted ''family_members'' (family_body lower clock) (st, 0))
       (loop_over extracted ''interests'' (interest_body lower clock)))
       (loop_over extracted ''health_mentions'' (health_body clock)))
       (loop_over extracted ''important_stories'' (story_body clock)))
       (loop_over extracted ''topics_discussed'' (topic_body clock))"

text \<open>
  \<^verbatim>\<open>extract_memories_from_conversation\<close>: the value returned and the store it
  leaves. Every exception is caught and turns into the empty dict. The transcript is
  part of the prompt sent to the provider, whose outcome is the argument.
\<close>

definition extract_memories_from_conversation ::
  "(string \<Rightarrow> string) \<Rightarrow> (string \<Rightarrow> json option) \<Rightarrow> clock \<Rightarrow> provider_outcome \<Rightarrow> store \<Rightarrow> json \<times> store" where
  "extract_memories_from_conversation lower json_loads clock outcome st =
     (case outcome of
        Failure \<Rightarrow> (JDict [], st)
      | Reply text \<Rightarrow>
          (case json_span text of
             None \<Rightarrow> (JDict [], st)
           | Some span \<Rightarrow>
               (case json_loads span of
                  None \<Rightarrow> (JDict [], st)
                | Some extracted \<Rightarrow>
                    (case update_memory lower clock extracted st of
                       (Some e, st', t) \<Rightarrow> (JDict [], st')
                     | (None, st', t) \<Rightarrow> (extracted, st')))))"


section \<open>The session brain (gemini_service.py)\<close>

text \<open>
  A \<^verbatim>\<open>GrandPalBrain\<close> has its own user name and the history of the conversation.
  Its \<^verbatim>\<open>memory\<close> is a reference to a \<^verbatim>\<open>UserMemory\<close> of the registry; the
  functions that read it take the object it refers to.
\<close>

record turn =
  role :: string
  content :: string

record brain =
  brain_user_id :: string
  brain_user_name :: string
  conversation_history :: "turn list"

definition fallback :: "string \<Rightarrow> string" where
  "fallback uname =
     ''I'm sorry, '' @ uname @ '', I had a little trouble there. Could you say that again?''"

text \<open>
  \<^verbatim>\<open>get_response\<close>: the user turn is appended inside the \<^verbatim>\<open>try\<close>, before the call
  of the provider; the assistant turn only after the call has returned.
\<close>

definition get_response :: "string \<Rightarrow> provider_outcome \<Rightarrow> brain \<Rightarrow> string \<times> brain" where
  "get_response user_message outcome b =
     (let b1 = b\<lparr>conversation_history :=
                   conversation_history b @ [\<lparr>role = ''user'', content = user_message\<rparr>]\<rparr>
      in case outcome of
           Failure \<Rightarrow> (fallback (brain_user_name b1), b1)
         | Reply assistant_message \<Rightarrow>
             (assistant_message,
              b1\<lparr>conversation_history :=
                   conversation_history b1 @ [\<lparr>role = ''assistant'', content = assistant_message\<rparr>]\<rparr>))"

definition transcript_line :: "string \<Rightarrow> turn \<Rightarrow> string" where
  "transcript_line uname msg =
     (if role msg = ''assistant'' then ''GrandPal'' else uname)
       @ '': '' @ content msg @ newline @ newline"

definition get_conversation_transcript :: "brain \<Rightarrow> string" where
  "get_conversation_transcript b =
     foldl (\<lambda>transcript msg. transcript @ transcript_line (brain_user_name b) msg)
       [] (conversation_history b)"

text \<open>The list comprehension \<^verbatim>\<open>[m['name'] for m in family[:3]]\<close>.\<close>

fun member_names :: "json list \<Rightarrow> json list result" where
  "member_names [] = Inr []"
| "member_names (m # ms) =
     (case py_getitem m ''name'' of
        Inl e \<Rightarrow> Inl e
      | Inr n \<Rightarrow> (case member_names ms of Inl e \<Rightarrow> Inl e | Inr ns \<Rightarrow> Inr (n # ns)))"

definition topics_hint :: "json \<Rightarrow> string result" where
  "topics_hint recent_topics =
     (if truthy recent_topics then
        (case py_slice_last 2 recent_topics of
           Inl e \<Rightarrow> Inl e
         | Inr shown \<Rightarrow>
             (case py_join '', '' shown of
                Inl e \<Rightarrow> Inl e
              | Inr s \<Rightarrow> Inr (''Last time you talked about: '' @ s @ ''. '')))
      else Inr [])"

definition family_hint :: "json \<Rightarrow> string result" where
  "family_hint family =
     (if truthy family then
        (case py_slice_first 3 family of
           Inl e \<Rightarrow> Inl e
         | Inr shown \<Rightarrow>
             (case py_iter shown of
                Inl e \<Rightarrow> Inl e
              | Inr ms \<Rightarrow>
                  (case member_names ms of
                     Inl e \<Rightarrow> Inl e
                   | Inr ns \<Rightarrow>
                       (case the_strings ns of
                          Inl e \<Rightarrow> Inl e
                        | Inr ss \<Rightarrow>
                            Inr (''You know about their family: '' @ join '', '' ss @ ''. '')))))
      else Inr [])"

definition first_greeting_prompt :: "string \<Rightarrow> string" where
  "first_greeting_prompt uname =
     ''Generate a warm, friendly first greeting for '' @ uname
     @ '' who you're meeting for the first time. Keep it to 1-2 sentences. Be warm and welcoming.''"

definition returning_greeting_prompt :: "string \<Rightarrow> json \<Rightarrow> string \<Rightarrow> string" where
  "returning_greeting_prompt uname conv_count context =
     ''Generate a warm greeting for '' @ uname @ '' who you've talked to '' @ py_str conv_count
     @ '' times before.'' @ newline
     @ ''            '' @ newline
     @ context @ newline
     @ newline
     @ ''Reference something from previous conversations if relevant, or just give a warm \"welcome back\" greeting.''
     @ newline
     @ ''Keep it to 1-2 sentences. Be genuine and warm, like greeting an old friend.''"

definition greeting_prompt :: "string \<Rightarrow> user_memory \<Rightarrow> string result" where
  "greeting_prompt uname um =
     (case get_context_for_conversation um of
        Inl e \<Rightarrow> Inl e
      | Inr memory_context \<Rightarrow>
          (case py_get (memories um) ''conversation_count'' (JInt 1) of
             Inl e \<Rightarrow> Inl e
           | Inr conv_count \<Rightarrow>
               if py_is_one conv_count then Inr (first_greeting_prompt uname)
               else
                 (case py_get (memories um) ''recent_topics'' (JList []) of
                    Inl e \<Rightarrow> Inl e
                  | Inr recent_topics \<Rightarrow>
                      (case py_get (memories um) ''profile'' (JDict []) of
                         Inl e \<Rightarrow> Inl e
                       | Inr profile \<Rightarrow>
                           (case py_get profile ''family_members'' (JList []) of
                              Inl e \<Rightarrow> Inl e
                            | Inr family \<Rightarrow>
                                (case topics_hint recent_topics of
                                   Inl e \<Rightarrow> Inl e
                                 | Inr h1 \<Rightarrow>
                                     (case family_hint family of
                                        Inl e \<Rightarrow> Inl e
                                      | Inr h2 \<Rightarrow>
                                          Inr (returning_greeting_prompt uname conv_count
                                                 (h1 @ h2)))))))))"

text \<open>
  \<^verbatim>\<open>get_greeting\<close> builds the prompt outside any \<^verbatim>\<open>try\<close> and sends it through
  \<^verbatim>\<open>get_response\<close>.
\<close>

definition get_greeting :: "user_memory \<Rightarrow> provider_outcome \<Rightarrow> brain \<Rightarrow> (string \<times> brain) result" where
  "get_greeting um outcome b =
     (case greeting_prompt (brain_user_name b) um of
        Inl e \<Rightarrow> Inl e
      | Inr prompt \<Rightarrow> Inr (get_response prompt outcome b))"

text \<open>
  \<^verbatim>\<open>save_memories\<close>: the extraction runs on a transcript that is not empty.
\<close>

definition save_memories ::
  "(string \<Rightarrow> string) \<Rightarrow> (string \<Rightarrow> json option) \<Rightarrow> clock \<Rightarrow> provider_outcome \<Rightarrow> brain \<Rightarrow> store \<Rightarrow> store" where
  "save_memories lower json_loads clock outcome b st =
     (if get_conversation_transcript b \<noteq> []
      then snd (extract_memories_from_conversation lower json_loads clock outcome st)
      else st)"


section \<open>Vocabulary of the properties\<close>

subsection \<open>Records with every field\<close>

text \<open>
  The fields of a record in the layout that \<^verbatim>\<open>_load_memories\<close> creates and the
  mutators preserve.
\<close>

record fields =
  stored_name :: json
  created_at :: json
  last_conversation :: json
  family_members :: "json list"
  health_notes :: "json list"
  interests :: "json list"
  important_dates :: json
  location :: json
  occupation :: json
  stories :: "json list"
  recent_topics :: "json list"
  conversation_count :: json

definition record_of :: "fields \<Rightarrow> json" where
  "record_of r =
     JDict [
       (''user_name'', stored_name r),
       (''created_at'', created_at r),
       (''last_conversation'', last_conversation r),
       (''profile'', JDict [
          (''family_members'', JList (family_members r)),
          (''health_notes'', JList (health_notes r)),
          (''interests'', JList (interests r)),
          (''important_dates'', important_dates r),
          (''location'', location r),
          (''occupation'', occupation r)]),
       (''stories'', JList (stories r)),
       (''recent_topics'', JList (recent_topics r)),
       (''conversation_count'', conversation_count r)]"

definition default_fields :: "string \<Rightarrow> string \<Rightarrow> fields" where
  "default_fields uname now =
     \<lparr>stored_name = JStr uname, created_at = JStr now, last_conversation = JNull,
      family_members = [], health_notes = [], interests = [], important_dates = JList [],
      location = JNull, occupation = JNull, stories = [], recent_topics = [],
      conversation_count = JInt 0\<rparr>"

text \<open>
  The store whose record has the fields \<open>r\<close>, and the store after that record has
  been saved at \<open>now\<close>.
\<close>

definition store_of :: "user_memory \<Rightarrow> files \<Rightarrow> fields \<Rightarrow> store" where
  "store_of um fs r = (um\<lparr>memories := record_of r\<rparr>, fs)"

definition saved_store :: "user_memory \<Rightarrow> files \<Rightarrow> string \<Rightarrow> fields \<Rightarrow> store" where
  "saved_store um fs now r =
     store_of um
       (fs(memory_file (user_id um) \<mapsto> JsonText (record_of (r\<lparr>last_conversation := JStr now\<rparr>))))
       (r\<lparr>last_conversation := JStr now\<rparr>)"



text \<open>
  A store is persisted at \<open>now\<close> when the record's \<^verbatim>\<open>last_conversation\<close> is
  \<open>now\<close> and the user's file holds the dump of the record in memory.
\<close>

definition persisted :: "string \<Rightarrow> store \<Rightarrow> bool" where
  "persisted now st =
     (case st of (um, fs) \<Rightarrow>
        py_getitem (memories um) ''last_conversation'' = Inr (JStr now)
        \<and> fs (memory_file (user_id um)) = Some (JsonText (memories um)))"

subsection \<open>Sequences of mutator calls\<close>

text \<open>
  A call of a mutator with string arguments, as the signatures declare them. Each call
  comes with the two clock readings it may take: the date of a story and the time of
  the save.
\<close>

datatype call =
    AddFamilyMember string string string
  | AddInterest string
  | AddHealthNote string
  | AddRecentTopic string
  | AddStory string
  | IncrementConversation

fun apply_call :: "(string \<Rightarrow> string) \<Rightarrow> call \<times> string \<times> string \<Rightarrow> store \<Rightarrow> store result" where
  "apply_call lower (AddFamilyMember n r d, date, now) st = add_family_member lower now (JStr n) (JStr r) (JStr d) st"
| "apply_call lower (AddInterest i, date, now) st = add_interest lower now (JStr i) st"
| "apply_call lower (AddHealthNote n, date, now) st = add_health_note now (JStr n) st"
| "apply_call lower (AddRecentTopic t, date, now) st = add_recent_topic now (JStr t) st"
| "apply_call lower (AddStory s, date, now) st = add_story date now (JStr s) st"
| "apply_call lower (IncrementConversation, date, now) st = increment_conversation now st"

fun run_calls :: "(string \<Rightarrow> string) \<Rightarrow> (call \<times> string \<times> string) list \<Rightarrow> store \<Rightarrow> store result" where
  "run_calls lower [] st = Inr st"
| "run_calls lower (c # cs) st =
     (case apply_call lower c st of Inl e \<Rightarrow> Inl e | Inr st' \<Rightarrow> run_calls lower cs st')"

fun health_note_of :: "call \<times> string \<times> string \<Rightarrow> json list" where
  "health_note_of (AddHealthNote n, date, now) = [JStr n]"
| "health_note_of _ = []"

fun topic_of :: "call \<times> string \<times> string \<Rightarrow> json list" where
  "topic_of (AddRecentTopic t, date, now) = [JStr t]"
| "topic_of _ = []"

fun story_of :: "call \<times> string \<times> string \<Rightarrow> json list" where
  "story_of (AddStory s, date, now) = [JDict [(''summary'', JStr s), (''date'', JStr date)]]"
| "story_of _ = []"

subsection \<open>Names and interests up to case\<close>

definition member_entry :: "string \<Rightarrow> string \<Rightarrow> string \<Rightarrow> json" where
  "member_entry n r d = JDict [(''name'', JStr n), (''relation'', JStr r), (''details'', JStr d)]"

definition named :: "json \<Rightarrow> bool" where
  "named m = (case py_getitem m ''name'' of Inr (JStr n) \<Rightarrow> True | _ \<Rightarrow> False)"

definition name_of :: "json \<Rightarrow> string" where
  "name_of m = (case py_getitem m ''name'' of Inr (JStr n) \<Rightarrow> n | _ \<Rightarrow> [])"

definition matches :: "(string \<Rightarrow> string) \<Rightarrow> string \<Rightarrow> json \<Rightarrow> bool" where
  "matches lower n m = (lower (name_of m) = lower n)"

text \<open>
  Update in place: the first member whose name matches gets the relation, and the
  details when they are not empty.
\<close>

definition with_relation :: "json \<Rightarrow> json \<Rightarrow> json \<Rightarrow> json" where
  "with_relation rel det m =
     (case m of
        JDict kvs \<Rightarrow>
          JDict (if truthy det then dict_set (dict_set kvs ''relation'' rel) ''details'' det
                 else dict_set kvs ''relation'' rel)
      | _ \<Rightarrow> m)"

fun update_first :: "(string \<Rightarrow> string) \<Rightarrow> string \<Rightarrow> json \<Rightarrow> json \<Rightarrow> json list \<Rightarrow> json list" where
  "update_first lower n rel det [] = []"
| "update_first lower n rel det (m # ms) =
     (if matches lower n m then with_relation rel det m # ms else m # update_first lower n rel det ms)"

text \<open>
  What the mutators keep true of the fields: the members have a string name, the
  interests are strings, the count is an integer and the bounded lists are within
  their bounds.
\<close>

definition is_str :: "json \<Rightarrow> bool" where
  "is_str j = (case j of JStr s \<Rightarrow> True | _ \<Rightarrow> False)"

definition is_int :: "json \<Rightarrow> bool" where
  "is_int j = (case j of JInt n \<Rightarrow> True | _ \<Rightarrow> False)"

definition well_kept :: "fields \<Rightarrow> bool" where
  "well_kept r =
     (list_all named (family_members r) \<and> list_all is_str (interests r)
      \<and> is_int (conversation_count r)
      \<and> length (health_notes r) \<le> 10 \<and> length (recent_topics r) \<le> 5
      \<and> length (stories r) \<le> 20)"

text \<open>
  The test of \<^verbatim>\<open>add_interest\<close> on a record: the interest, lowered, is among the
  stored interests, lowered.
\<close>

definition interest_present :: "(string \<Rightarrow> string) \<Rightarrow> json \<Rightarrow> json \<Rightarrow> bool" where
  "interest_present lower interest m =
     (case profile_field m ''interests'' of
        Inl e \<Rightarrow> False
      | Inr stored \<Rightarrow>
          (case py_lower lower interest of
             Inl e \<Rightarrow> False
           | Inr l \<Rightarrow>
               (case py_iter stored of
                  Inl e \<Rightarrow> False
                | Inr items \<Rightarrow>
                    (case lower_all lower items of Inl e \<Rightarrow> False | Inr ls \<Rightarrow> l \<in> set ls))))"




subsection \<open>The context summary as the specification words it\<close>

text \<open>
  The typed reading of a record whose fields are present and of the declared types: a
  member's details are absent when the key is missing, null or the empty string.
\<close>

record summary_view =
  view_name :: string
  view_family :: "(string \<times> string \<times> string option) list"
  view_health :: "string list"
  view_interests :: "string list"
  view_topics :: "string list"
  view_count :: int

definition member_view :: "json \<Rightarrow> (string \<times> string \<times> string option) option" where
  "member_view m =
     (case py_getitem m ''name'' of
        Inr (JStr n) \<Rightarrow>
          (case py_getitem m ''relation'' of
             Inr (JStr r) \<Rightarrow>
               (case py_get m ''details'' JNull of
                  Inr JNull \<Rightarrow> Some (n, r, None)
                | Inr (JStr d) \<Rightarrow> Some (n, r, if d = [] then None else Some d)
                | _ \<Rightarrow> None)
           | _ \<Rightarrow> None)
      | _ \<Rightarrow> None)"

fun members_view :: "json list \<Rightarrow> (string \<times> string \<times> string option) list option" where
  "members_view [] = Some []"
| "members_view (m # ms) =
     (case member_view m of
        None \<Rightarrow> None
      | Some v \<Rightarrow> (case members_view ms of None \<Rightarrow> None | Some vs \<Rightarrow> Some (v # vs)))"

fun strings_view :: "json \<Rightarrow> string list option" where
  "strings_view (JList js) = (case the_strings js of Inl e \<Rightarrow> None | Inr ss \<Rightarrow> Some ss)"
| "strings_view _ = None"

definition view_of :: "user_memory \<Rightarrow> summary_view option" where
  "view_of um =
     (case profile_field (memories um) ''family_members'' of
        Inr (JList ms) \<Rightarrow>
          (case members_view ms of
             None \<Rightarrow> None
           | Some fam \<Rightarrow>
               (case profile_field (memories um) ''health_notes'' of
                  Inl e \<Rightarrow> None
                | Inr h \<Rightarrow>
                    (case strings_view h of
                       None \<Rightarrow> None
                     | Some hs \<Rightarrow>
                         (case profile_field (memories um) ''interests'' of
                            Inl e \<Rightarrow> None
                          | Inr i \<Rightarrow>
                              (case strings_view i of
                                 None \<Rightarrow> None
                               | Some is \<Rightarrow>
                                   (case py_getitem (memories um) ''recent_topics'' of
                                      Inl e \<Rightarrow> None
                                    | Inr t \<Rightarrow>
                                        (case strings_view t of
                                           None \<Rightarrow> None
                                         | Some ts \<Rightarrow>
                                             (case py_getitem (memories um) ''conversation_count'' of
                                                Inr (JInt c) \<Rightarrow>
                                                  Some \<lparr>view_name = user_name um, view_family = fam,
                                                        view_health = hs, view_interests = is,
                                                        view_topics = ts, view_count = c\<rparr>
                                              | _ \<Rightarrow> None))))))))
      | _ \<Rightarrow> None)"

fun show_member :: "string \<times> string \<times> string option \<Rightarrow> string" where
  "show_member (n, r, None) = n @ '' ('' @ r @ '')''"
| "show_member (n, r, Some d) = n @ '' ('' @ r @ '')'' @ '' - '' @ d"

definition contextSummary :: "summary_view \<Rightarrow> string" where
  "contextSummary v =
     join newline
       ([''User's name: '' @ view_name v]
        @ (if view_family v \<noteq> []
           then [''Family: '' @ join '', '' (map show_member (take 5 (view_family v)))] else [])
        @ (if view_health v \<noteq> []
           then [''Health notes: '' @ join ''; '' (last_n 3 (view_health v))] else [])
        @ (if view_interests v \<noteq> []
           then [''Interests: '' @ join '', '' (take 5 (view_interests v))] else [])
        @ (if view_topics v \<noteq> []
           then [''Recent conversation topics: '' @ join '', '' (last_n 3 (view_topics v))] else [])
        @ (if 0 < view_count v
           then [''You've had '' @ str_int (view_count v) @ '' conversations with '' @ view_name v]
           else []))"


section \<open>Shared lemmas\<close>

lemma map_of_dict_set: "map_of (dict_set kvs k v) = (map_of kvs)(k \<mapsto> v)"
  by (induction kvs) (auto simp: fun_eq_iff)

lemma save_persisted:
  assumes "save now st = Inr st'"
  shows "persisted now st' \<and> user_id (fst st') = user_id (fst st)"
proof -
  obtain um fs where st: "st = (um, fs)" by (cases st)
  from assms st obtain m where m: "py_setitem (memories um) ''last_conversation'' (JStr now) = Inr m"
    and st': "st' = (um\<lparr>memories := m\<rparr>, fs(memory_file (user_id um) \<mapsto> JsonText m))"
    by (auto simp: save_def split: sum.splits)
  from m obtain kvs where "memories um = JDict kvs"
    and "m = JDict (dict_set kvs ''last_conversation'' (JStr now))"
    by (cases "memories um") auto
  with st st' show ?thesis by (simp add: persisted_def map_of_dict_set)
qed

lemma increment_conversation_persisted:
  "increment_conversation now st = Inr st' \<Longrightarrow> persisted now st'"
  by (cases st) (auto simp: increment_conversation_def split: sum.splits dest: save_persisted)

lemma add_family_member_persisted:
  "add_family_member lower now n r d st = Inr st' \<Longrightarrow> persisted now st'"
  by (cases st)
    (auto simp: add_family_member_def split: sum.splits option.splits dest: save_persisted)

lemma add_health_note_persisted:
  "add_health_note now n st = Inr st' \<Longrightarrow> persisted now st'"
  by (cases st) (auto simp: add_health_note_def split: sum.splits dest: save_persisted)

lemma add_recent_topic_persisted:
  "add_recent_topic now n st = Inr st' \<Longrightarrow> persisted now st'"
  by (cases st) (auto simp: add_recent_topic_def split: sum.splits dest: save_persisted)

lemma add_story_persisted:
  "add_story date now n st = Inr st' \<Longrightarrow> persisted now st'"
  by (cases st) (auto simp: add_story_def split: sum.splits dest: save_persisted)

lemma add_interest_returns:
  "add_interest lower now i st = Inr st' \<Longrightarrow>
   (interest_present lower i (memories (fst st)) \<longrightarrow> st' = st)
   \<and> (\<not> interest_present lower i (memories (fst st)) \<longrightarrow> persisted now st')"
  by (cases st)
    (auto simp: add_interest_def interest_present_def split: sum.splits if_splits
      dest: save_persisted)

lemma persisted_read_back:
  "persisted now st \<Longrightarrow>
   load_memories (snd st) (user_id (fst st)) uname t = Inr (memories (fst st))"
  by (cases st) (simp add: persisted_def load_memories_def)

lemma new_memories_fields: "new_memories uname now = record_of (default_fields uname now)"
  by (simp add: new_memories_def record_of_def default_fields_def)


lemma persisted_saved_store: "persisted now (saved_store um fs now r)"
  by (simp add: persisted_def saved_store_def store_of_def record_of_def)

subsection \<open>The mutators on a record with every field\<close>

lemmas mutator_defs =
  store_of_def saved_store_def record_of_def profile_field_def set_profile_field_def save_def

lemma add_health_note_record:
  "add_health_note now n (store_of um fs r)
     = Inr (saved_store um fs now (r\<lparr>health_notes := last_n 10 (health_notes r @ [n])\<rparr>))"
  by (simp add: add_health_note_def mutator_defs)

lemma add_recent_topic_record:
  "add_recent_topic now n (store_of um fs r)
     = Inr (saved_store um fs now (r\<lparr>recent_topics := last_n 5 (recent_topics r @ [n])\<rparr>))"
  by (simp add: add_recent_topic_def mutator_defs)

lemma add_story_record:
  "add_story date now s (store_of um fs r)
     = Inr (saved_store um fs now
         (r\<lparr>stories := last_n 20 (stories r @ [JDict [(''summary'', s), (''date'', JStr date)]])\<rparr>))"
  by (simp add: add_story_def mutator_defs)

lemma increment_conversation_record:
  "conversation_count r = JInt c \<Longrightarrow>
   increment_conversation now (store_of um fs r)
     = Inr (saved_store um fs now (r\<lparr>conversation_count := JInt (c + 1)\<rparr>))"
  by (simp add: increment_conversation_def mutator_defs)

lemma lower_all_strings: "lower_all lower (map JStr xs) = Inr (map lower xs)"
  by (induction xs) auto

lemma add_interest_record:
  "interests r = map JStr xs \<Longrightarrow>
   add_interest lower now (JStr x) (store_of um fs r)
     = Inr (if lower x \<in> set (map lower xs) then store_of um fs r
            else saved_store um fs now (r\<lparr>interests := map JStr (xs @ [x])\<rparr>))"
  by (simp add: add_interest_def mutator_defs lower_all_strings)

lemma named_dict: "named m \<Longrightarrow> \<exists>kvs n. m = JDict kvs \<and> map_of kvs ''name'' = Some (JStr n)"
  by (cases m) (auto simp: named_def split: option.splits json.splits)

lemma update_member_named:
  "list_all named ms \<Longrightarrow>
   update_member lower ms (JStr n) rel det
     = Inr (if list_ex (matches lower n) ms then Some (update_first lower n rel det ms) else None)"
proof (induction ms)
  case Nil
  then show ?case by simp
next
  case (Cons m ms)
  from Cons.prems have "named m" by simp
  from named_dict [OF this] obtain kvs nm
    where m: "m = JDict kvs" "map_of kvs ''name'' = Some (JStr nm)"
    by blast
  then have nm: "matches lower n m = (lower nm = lower n)"
    by (simp add: name_of_def matches_def)
  from Cons have IH: "update_member lower ms (JStr n) rel det
     = Inr (if list_ex (matches lower n) ms then Some (update_first lower n rel det ms) else None)"
    by simp
  show ?case
    using m(2) nm IH unfolding m(1) by (simp add: with_relation_def)
qed

lemma add_family_member_record:
  assumes "list_all named (family_members r)"
  shows "add_family_member lower now (JStr n) rel det (store_of um fs r)
     = Inr (saved_store um fs now
         (r\<lparr>family_members :=
              (if list_ex (matches lower n) (family_members r)
               then update_first lower n rel det (family_members r)
               else family_members r
                      @ [JDict [(''name'', JStr n), (''relation'', rel), (''details'', det)]])\<rparr>))"
  using assms
  by (simp add: add_family_member_def mutator_defs update_member_named)

lemma dropWhile_suffix:
  "\<not> P x \<Longrightarrow> \<exists>ys. dropWhile P (pre @ x # rest) = ys @ x # rest"
  by (induction pre) auto

lemma json_span_None_iff:
  "json_span text = None
     \<longleftrightarrow> \<not> (\<exists>pre mid post. text = pre @ ''{'' @ mid @ ''}'' @ post)"
proof -
  let ?P = "\<lambda>c. c \<noteq> CHR ''{''"
  have "json_span text = None
          \<longleftrightarrow> dropWhile (\<lambda>c. c \<noteq> CHR ''}'') (rev (dropWhile ?P text)) = []"
    by (simp add: json_span_def Let_def)
  also have "\<dots> \<longleftrightarrow> CHR ''}'' \<notin> set (dropWhile ?P text)"
    unfolding dropWhile_eq_Nil_conv set_rev by blast
  finally have none: "json_span text = None \<longleftrightarrow> CHR ''}'' \<notin> set (dropWhile ?P text)" .
  have "CHR ''}'' \<in> set (dropWhile ?P text)
          \<longleftrightarrow> (\<exists>pre mid post. text = pre @ ''{'' @ mid @ ''}'' @ post)"
  proof
    assume in_rest: "CHR ''}'' \<in> set (dropWhile ?P text)"
    have ne: "dropWhile ?P text \<noteq> []"
    proof
      assume "dropWhile ?P text = []"
      with in_rest show False by (simp only: set_simps empty_iff)
    qed
    from hd_dropWhile [OF ne] have "hd (dropWhile ?P text) = CHR ''{''" by simp
    with ne obtain rest where rest: "dropWhile ?P text = CHR ''{'' # rest"
      by (cases "dropWhile ?P text") simp_all
    with in_rest have "CHR ''}'' \<in> set rest" by auto
    then obtain mid post where "rest = mid @ CHR ''}'' # post"
      by (auto dest: split_list)
    with rest have "text = takeWhile ?P text @ ''{'' @ mid @ ''}'' @ post"
      using takeWhile_dropWhile_id [of ?P "text"] by simp
    then show "\<exists>pre mid post. text = pre @ ''{'' @ mid @ ''}'' @ post" by blast
  next
    assume "\<exists>pre mid post. text = pre @ ''{'' @ mid @ ''}'' @ post"
    then obtain pre mid post where t: "text = pre @ CHR ''{'' # (mid @ CHR ''}'' # post)"
      by auto
    obtain ys where "dropWhile ?P text = ys @ CHR ''{'' # (mid @ CHR ''}'' # post)"
      using dropWhile_suffix [of ?P "CHR ''{''" pre "mid @ CHR ''}'' # post"] t by auto
    then show "CHR ''}'' \<in> set (dropWhile ?P text)" by simp
  qed
  with none show ?thesis by simp
qed

lemma transcript_append:
  "get_conversation_transcript (b\<lparr>conversation_history := conversation_history b @ [t]\<rparr>)
     = get_conversation_transcript b @ transcript_line (brain_user_name b) t"
  by (simp add: get_conversation_transcript_def)

subsection \<open>Sequences of calls\<close>

lemma last_n_short: "length xs \<le> n \<Longrightarrow> last_n n xs = xs"
  by (simp add: last_n_def)

lemma length_last_n: "length (last_n n xs) \<le> n"
  by (simp add: last_n_def)

lemma last_n_append: "last_n n (last_n n xs @ ys) = last_n n (xs @ ys)"
proof (cases "length xs \<le> n")
  case True
  then show ?thesis by (simp add: last_n_def)
next
  case False
  then have "length xs + length ys - (length xs - n + n) + (length xs - n)
               = length xs + length ys - n"
    by arith
  with False show ?thesis by (simp add: last_n_def)
qed

lemma strings_list: "list_all is_str js \<Longrightarrow> \<exists>xs. js = map JStr xs"
proof (induction js)
  case Nil
  then show ?case by simp
next
  case (Cons j js)
  then obtain xs where "js = map JStr xs" by auto
  moreover from Cons.prems obtain s where "j = JStr s"
    by (cases j) (auto simp: is_str_def)
  ultimately have "j # js = map JStr (s # xs)" by simp
  then show ?case by (rule exI [of _ "s # xs"])
qed

lemma named_with_relation: "named m \<Longrightarrow> named (with_relation rel det m)"
  by (cases m) (auto simp: named_def with_relation_def map_of_dict_set split: option.splits json.splits)

lemma name_of_with_relation: "name_of (with_relation rel det m) = name_of m"
  by (cases m) (auto simp: name_of_def with_relation_def map_of_dict_set)

lemma named_update_first:
  "list_all named ms \<Longrightarrow> list_all named (update_first lower n rel det ms)"
  by (induction ms) (auto simp: named_with_relation)

lemma names_update_first: "map name_of (update_first lower n rel det ms) = map name_of ms"
  by (induction ms) (auto simp: name_of_with_relation)

lemma length_update_first: "length (update_first lower n rel det ms) = length ms"
  by (induction ms) auto

lemma saved_store_as_store_of:
  "saved_store um fs now r
     = store_of um
         (fs(memory_file (user_id um) \<mapsto> JsonText (record_of (r\<lparr>last_conversation := JStr now\<rparr>))))
         (r\<lparr>last_conversation := JStr now\<rparr>)"
  by (simp add: saved_store_def)

lemma apply_call_record:
  assumes "well_kept r"
  shows "\<exists>fs' r'. apply_call lower c (store_of um fs r) = Inr (store_of um fs' r')
           \<and> well_kept r'
           \<and> health_notes r' = last_n 10 (health_notes r @ health_note_of c)
           \<and> recent_topics r' = last_n 5 (recent_topics r @ topic_of c)
           \<and> stories r' = last_n 20 (stories r @ story_of c)"
proof -
  obtain k date now where c: "c = (k, date, now)" by (cases c)
  from assms obtain xs where xs: "interests r = map JStr xs"
    using strings_list by (auto simp: well_kept_def)
  from assms obtain n where n: "conversation_count r = JInt n"
    by (cases "conversation_count r") (auto simp: well_kept_def is_int_def)
  from assms have fam: "list_all named (family_members r)" by (simp add: well_kept_def)
  show ?thesis
  proof (cases k)
    case (AddFamilyMember nm rel det)
    show ?thesis
      unfolding c AddFamilyMember apply_call.simps add_family_member_record [OF fam]
        saved_store_as_store_of
      by (intro exI conjI, rule refl)
        (insert assms, auto simp: well_kept_def last_n_short named_update_first named_def)
  next
    case (AddInterest i)
    have run: "apply_call lower c (store_of um fs r)
        = Inr (if lower i \<in> set (map lower xs) then store_of um fs r
               else saved_store um fs now (r\<lparr>interests := map JStr (xs @ [i])\<rparr>))"
      unfolding c AddInterest apply_call.simps by (rule add_interest_record [OF xs])
    show ?thesis
    proof (cases "lower i \<in> set (map lower xs)")
      case True
      with run have "apply_call lower c (store_of um fs r) = Inr (store_of um fs r)" by simp
      with assms show ?thesis
        unfolding c AddInterest
        by (intro exI [of _ fs] exI [of _ r]) (simp add: well_kept_def last_n_short)
    next
      case False
      with run have "apply_call lower c (store_of um fs r)
          = Inr (saved_store um fs now (r\<lparr>interests := map JStr (xs @ [i])\<rparr>))"
        by simp
      then show ?thesis
        unfolding c AddInterest saved_store_as_store_of
        by (intro exI conjI, assumption)
          (insert assms xs, auto simp: well_kept_def last_n_short is_str_def list_all_iff)
    qed
  next
    case (AddHealthNote h)
    show ?thesis
      unfolding c AddHealthNote apply_call.simps add_health_note_record saved_store_as_store_of
      by (intro exI conjI, rule refl)
        (insert assms, auto simp: well_kept_def last_n_short length_last_n)
  next
    case (AddRecentTopic t)
    show ?thesis
      unfolding c AddRecentTopic apply_call.simps add_recent_topic_record saved_store_as_store_of
      by (intro exI conjI, rule refl)
        (insert assms, auto simp: well_kept_def last_n_short length_last_n)
  next
    case (AddStory s)
    show ?thesis
      unfolding c AddStory apply_call.simps add_story_record saved_store_as_store_of
      by (intro exI conjI, rule refl)
        (insert assms, auto simp: well_kept_def last_n_short length_last_n)
  next
    case IncrementConversation
    show ?thesis
      unfolding c IncrementConversation apply_call.simps increment_conversation_record [OF n]
        saved_store_as_store_of
      by (intro exI conjI, rule refl)
        (insert assms, auto simp: well_kept_def last_n_short is_int_def)
  qed
qed

lemma run_calls_record:
  assumes "well_kept r"
  shows "\<exists>fs' r'. run_calls lower cs (store_of um fs r) = Inr (store_of um fs' r')
           \<and> well_kept r'
           \<and> health_notes r' = last_n 10 (health_notes r @ concat (map health_note_of cs))
           \<and> recent_topics r' = last_n 5 (recent_topics r @ concat (map topic_of cs))
           \<and> stories r' = last_n 20 (stories r @ concat (map story_of cs))"
  using assms
proof (induction cs arbitrary: r fs)
  case Nil
  then show ?case
    by (intro exI [of _ fs] exI [of _ r]) (simp add: well_kept_def last_n_short)
next
  case (Cons c cs)
  from apply_call_record [OF Cons.prems, where c = c and um = um and fs = fs and lower = lower]
  obtain fs1 r1 where step: "apply_call lower c (store_of um fs r) = Inr (store_of um fs1 r1)"
    and wk: "well_kept r1"
    and h: "health_notes r1 = last_n 10 (health_notes r @ health_note_of c)"
    and t: "recent_topics r1 = last_n 5 (recent_topics r @ topic_of c)"
    and s: "stories r1 = last_n 20 (stories r @ story_of c)"
    by blast
  from Cons.IH [OF wk, of fs1]
  obtain fs' r' where run: "run_calls lower cs (store_of um fs1 r1) = Inr (store_of um fs' r')"
    and wk': "well_kept r'"
    and h': "health_notes r' = last_n 10 (health_notes r1 @ concat (map health_note_of cs))"
    and t': "recent_topics r' = last_n 5 (recent_topics r1 @ concat (map topic_of cs))"
    and s': "stories r' = last_n 20 (stories r1 @ concat (map story_of cs))"
    by blast
  show ?case
    using step run wk' h' t' s' h t s
    by (intro exI [of _ fs'] exI [of _ r']) (simp add: last_n_append)
qed

lemma well_kept_default: "well_kept (default_fields uname now)"
  by (simp add: well_kept_def default_fields_def is_int_def)

lemma update_first_append:
  "\<not> list_ex (matches lower n) ms \<Longrightarrow>
   update_first lower n rel det (ms @ [m]) = ms @ [if matches lower n m then with_relation rel det m else m]"
  by (induction ms) auto

lemma named_member_entry: "named (JDict [(''name'', JStr n), (''relation'', r), (''details'', d)])"
  by (simp add: named_def)







subsection \<open>The sections of the context summary\<close>

lemma getitem_get: "py_getitem j k = Inr v \<Longrightarrow> py_get j k d = Inr v"
  by (cases j) (auto split: option.splits)

lemma profile_fieldD:
  "profile_field m k = Inr x \<Longrightarrow>
   \<exists>p. py_getitem m ''profile'' = Inr p \<and> py_getitem p k = Inr x"
  by (auto simp: profile_field_def split: sum.splits)

lemma format_members_view:
  "members_view ms = Some fam \<Longrightarrow> format_members ms = Inr (map show_member fam)"
proof (induction ms arbitrary: fam)
  case Nil
  then show ?case by simp
next
  case (Cons m ms)
  from Cons.prems obtain v vs where v: "member_view m = Some v"
    and vs: "members_view ms = Some vs" and fam: "fam = v # vs"
    by (auto split: option.splits)
  from Cons.IH [OF vs] have rest: "format_members ms = Inr (map show_member vs)" .
  from v rest fam show ?case
    by (auto simp: member_view_def split: sum.splits json.splits if_splits)
qed

lemma members_view_take:
  "members_view ms = Some fam \<Longrightarrow> members_view (take k ms) = Some (take k fam)"
proof (induction ms arbitrary: fam k)
  case Nil
  then show ?case by simp
next
  case (Cons m ms)
  then show ?case
    by (cases k) (auto split: option.splits)
qed

lemma members_view_Nil: "members_view ms = Some fam \<Longrightarrow> (ms = []) = (fam = [])"
  by (cases ms) (auto split: option.splits)

lemma the_strings_map: "the_strings js = Inr ss \<Longrightarrow> js = map JStr ss"
proof (induction js arbitrary: ss)
  case Nil
  then show ?case by simp
next
  case (Cons j js)
  then show ?case by (cases j) (auto split: sum.splits)
qed

lemma the_strings_JStr: "the_strings (map JStr ss) = Inr ss"
  by (induction ss) auto

lemma strings_viewD: "strings_view j = Some ss \<Longrightarrow> j = JList (map JStr ss)"
  by (cases j) (auto split: sum.splits dest: the_strings_map)

lemma last_n_map: "last_n k (map f xs) = map f (last_n k xs)"
  by (simp add: last_n_def drop_map)

lemma family_part_view:
  assumes "py_getitem p ''family_members'' = Inr (JList ms)" and "members_view ms = Some fam"
  shows "family_part p parts
     = Inr (parts @ (if fam \<noteq> []
                     then [''Family: '' @ join '', '' (map show_member (take 5 fam))] else []))"
  using getitem_get [OF assms(1), of "JList []"] members_view_Nil [OF assms(2)]
    format_members_view [OF members_view_take [OF assms(2), of 5]]
  by (simp add: family_part_def)

lemma health_part_view:
  assumes "py_getitem p ''health_notes'' = Inr h" and "strings_view h = Some hs"
  shows "health_part p parts
     = Inr (parts @ (if hs \<noteq> [] then [''Health notes: '' @ join ''; '' (last_n 3 hs)] else []))"
  using getitem_get [OF assms(1), of "JList []"] strings_viewD [OF assms(2)]
  by (simp add: health_part_def py_join_def last_n_map the_strings_JStr)

lemma interests_part_view:
  assumes "py_getitem p ''interests'' = Inr i" and "strings_view i = Some is"
  shows "interests_part p parts
     = Inr (parts @ (if is \<noteq> [] then [''Interests: '' @ join '', '' (take 5 is)] else []))"
  using getitem_get [OF assms(1), of "JList []"] strings_viewD [OF assms(2)]
  by (simp add: interests_part_def py_join_def take_map the_strings_JStr)

lemma recent_part_view:
  assumes "py_getitem m ''recent_topics'' = Inr t" and "strings_view t = Some ts"
  shows "recent_part m parts
     = Inr (parts @ (if ts \<noteq> []
                     then [''Recent conversation topics: '' @ join '', '' (last_n 3 ts)] else []))"
  using getitem_get [OF assms(1), of "JList []"] strings_viewD [OF assms(2)]
  by (simp add: recent_part_def py_join_def last_n_map the_strings_JStr)

lemma count_part_view:
  assumes "py_getitem m ''conversation_count'' = Inr (JInt c)"
  shows "count_part m uname parts
     = Inr (parts @ (if 0 < c then [''You've had '' @ str_int c @ '' conversations with '' @ uname]
                     else []))"
  using getitem_get [OF assms, of "JInt 0"]
  by (simp add: count_part_def)

lemma context_summary_view:
  assumes "view_of um = Some v"
  shows "get_context_for_conversation um = Inr (contextSummary v)"
proof -
  from assms obtain ms fam h hs i "is" t ts c
    where f1: "profile_field (memories um) ''family_members'' = Inr (JList ms)"
      and f2: "members_view ms = Some fam"
      and h1: "profile_field (memories um) ''health_notes'' = Inr h"
      and h2: "strings_view h = Some hs"
      and i1: "profile_field (memories um) ''interests'' = Inr i"
      and i2: "strings_view i = Some is"
      and t1: "py_getitem (memories um) ''recent_topics'' = Inr t"
      and t2: "strings_view t = Some ts"
      and c1: "py_getitem (memories um) ''conversation_count'' = Inr (JInt c)"
      and v: "v = \<lparr>view_name = user_name um, view_family = fam, view_health = hs,
                   view_interests = is, view_topics = ts, view_count = c\<rparr>"
    unfolding view_of_def
    by (auto split: sum.splits json.splits option.splits)
  from profile_fieldD [OF f1] obtain p where p: "py_getitem (memories um) ''profile'' = Inr p"
    and pf: "py_getitem p ''family_members'' = Inr (JList ms)" by blast
  from profile_fieldD [OF h1] p have ph: "py_getitem p ''health_notes'' = Inr h" by auto
  from profile_fieldD [OF i1] p have pi: "py_getitem p ''interests'' = Inr i" by auto
  show ?thesis
    unfolding get_context_for_conversation_def contextSummary_def v
    by (simp add: getitem_get [OF p] family_part_view [OF pf f2] health_part_view [OF ph h2]
        interests_part_view [OF pi i2] recent_part_view [OF t1 t2] count_part_view [OF c1])
qed

subsection \<open>The two additions of Emma\<close>

lemma list_ex_matches_names:
  "map name_of ms' = map name_of ms \<Longrightarrow>
   list_ex (matches lower n) ms' = list_ex (matches lower n) ms"
proof -
  assume names: "map name_of ms' = map name_of ms"
  have key: "list_ex (matches lower n) xs = list_ex (\<lambda>nm. lower nm = lower n) (map name_of xs)"
    for xs
    by (induction xs) (simp_all add: matches_def)
  show ?thesis by (simp only: key names)
qed

lemma two_calls_new_member:
  assumes fam: "list_all named (family_members r)"
    and emma: "lower ''Emma'' = lower ''emma''"
    and new: "\<not> list_ex (matches lower ''emma'') (family_members r)"
  shows "\<exists>fs'. run_calls lower
                 [(AddFamilyMember ''Emma'' ''granddaughter'' [], d1, t1),
                  (AddFamilyMember ''emma'' ''granddaughter'' ''plays soccer'', d2, t2)]
                 (store_of um fs r)
               = Inr (saved_store um fs' t2
                   (r\<lparr>family_members :=
                        family_members r
                          @ [member_entry ''Emma'' ''granddaughter'' ''plays soccer'']\<rparr>))"
proof -
  let ?e1 = "JDict [(''name'', JStr ''Emma''), (''relation'', JStr ''granddaughter''),
                    (''details'', JStr [])]"
  let ?r1 = "r\<lparr>family_members := family_members r @ [?e1], last_conversation := JStr t1\<rparr>"
  let ?fs1 = "fs(memory_file (user_id um) \<mapsto> JsonText (record_of ?r1))"
  have same: "matches lower ''Emma'' = matches lower ''emma''"
    by (simp add: matches_def fun_eq_iff emma)
  have m1: "matches lower ''emma'' ?e1"
    by (simp add: matches_def name_of_def emma)
  have first: "add_family_member lower t1 (JStr ''Emma'') (JStr ''granddaughter'') (JStr [])
                 (store_of um fs r) = Inr (store_of um ?fs1 ?r1)"
    using new by (simp add: add_family_member_record [OF fam] saved_store_as_store_of same)
  have fam1: "list_all named (family_members ?r1)"
    using fam by (simp add: named_member_entry)
  have ex1: "list_ex (matches lower ''emma'') (family_members ?r1)"
    using m1 by simp
  have upd: "update_first lower ''emma'' (JStr ''granddaughter'') (JStr ''plays soccer'')
               (family_members r @ [?e1])
             = family_members r @ [member_entry ''Emma'' ''granddaughter'' ''plays soccer'']"
    using new m1 by (simp add: update_first_append with_relation_def member_entry_def)
  have second: "add_family_member lower t2 (JStr ''emma'') (JStr ''granddaughter'')
                  (JStr ''plays soccer'') (store_of um ?fs1 ?r1)
                = Inr (saved_store um ?fs1 t2
                    (r\<lparr>family_members :=
                         family_members r
                           @ [member_entry ''Emma'' ''granddaughter'' ''plays soccer'']\<rparr>))"
    using ex1 upd by (simp add: add_family_member_record [OF fam1] saved_store_def)
  from first second show ?thesis
    by (intro exI [of _ ?fs1]) simp
qed

lemma two_calls_existing_member:
  assumes fam: "list_all named (family_members r)"
    and emma: "lower ''Emma'' = lower ''emma''"
    and old: "list_ex (matches lower ''emma'') (family_members r)"
  shows "\<exists>fs'. run_calls lower
                 [(AddFamilyMember ''Emma'' ''granddaughter'' [], d1, t1),
                  (AddFamilyMember ''emma'' ''granddaughter'' ''plays soccer'', d2, t2)]
                 (store_of um fs r)
               = Inr (saved_store um fs' t2
                   (r\<lparr>family_members :=
                        update_first lower ''emma'' (JStr ''granddaughter'') (JStr ''plays soccer'')
                          (update_first lower ''emma'' (JStr ''granddaughter'') (JStr [])
                             (family_members r))\<rparr>))"
proof -
  let ?f1 = "update_first lower ''emma'' (JStr ''granddaughter'') (JStr []) (family_members r)"
  let ?r1 = "r\<lparr>family_members := ?f1, last_conversation := JStr t1\<rparr>"
  let ?fs1 = "fs(memory_file (user_id um) \<mapsto> JsonText (record_of ?r1))"
  have same: "matches lower ''Emma'' = matches lower ''emma''"
    by (simp add: matches_def fun_eq_iff emma)
  have upd_same: "update_first lower ''Emma'' rel det ms = update_first lower ''emma'' rel det ms"
    for rel det ms
    by (induction ms) (simp_all add: same)
  have first: "add_family_member lower t1 (JStr ''Emma'') (JStr ''granddaughter'') (JStr [])
                 (store_of um fs r) = Inr (store_of um ?fs1 ?r1)"
    using old by (simp add: add_family_member_record [OF fam] saved_store_as_store_of same upd_same)
  have fam1: "list_all named (family_members ?r1)"
    using fam by (simp add: named_update_first)
  have ex1: "list_ex (matches lower ''emma'') (family_members ?r1)"
    using old by (simp add: list_ex_matches_names [OF names_update_first])
  have second: "add_family_member lower t2 (JStr ''emma'') (JStr ''granddaughter'')
                  (JStr ''plays soccer'') (store_of um ?fs1 ?r1)
                = Inr (saved_store um ?fs1 t2
                    (r\<lparr>family_members :=
                         update_first lower ''emma'' (JStr ''granddaughter'') (JStr ''plays soccer'')
                           ?f1\<rparr>))"
    using ex1 by (simp add: add_family_member_record [OF fam1] saved_store_def)
  from first second show ?thesis
    by (intro exI [of _ ?fs1]) simp
qed

section \<open>The session brain recovers from a failed provider call\<close>

text \<open>
  C9: for every message, when the call of the model inside \<^verbatim>\<open>get_response\<close> raises,
  the function returns the fixed apology with the user's name in it, and raises
  nothing: the result is a plain string.
\<close>

theorem get_response_failure_fallback:
  "fst (get_response user_message Failure b)
     = ''I'm sorry, '' @ brain_user_name b
       @ '', I had a little trouble there. Could you say that again?''"
  by (simp add: get_response_def fallback_def)

text \<open>
  C10: a failed call leaves the user turn in the history and nothing else: the history
  grows by one entry (by two on success), the apology is not recorded, and the
  transcript handed to the extraction ends with the failed prompt under the user's
  name. The same holds for the prompt that \<^verbatim>\<open>get_greeting\<close> sends.
\<close>

theorem failed_call_history:
  "conversation_history (snd (get_response user_message Failure b))
     = conversation_history b @ [\<lparr>role = ''user'', content = user_message\<rparr>]
   \<and> length (conversation_history (snd (get_response user_message Failure b)))
       = length (conversation_history b) + 1
   \<and> length (conversation_history (snd (get_response user_message (Reply text) b)))
       = length (conversation_history b) + 2
   \<and> get_conversation_transcript (snd (get_response user_message Failure b))
       = get_conversation_transcript b
         @ brain_user_name b @ '': '' @ user_message @ newline @ newline
   \<and> (\<forall>prompt. greeting_prompt (brain_user_name b) um = Inr prompt \<longrightarrow>
         (\<exists>b'. get_greeting um Failure b = Inr (fallback (brain_user_name b), b')
            \<and> conversation_history b'
                = conversation_history b @ [\<lparr>role = ''user'', content = prompt\<rparr>]
            \<and> get_conversation_transcript b'
                = get_conversation_transcript b
                  @ brain_user_name b @ '': '' @ prompt @ newline @ newline))"
  by (simp add: get_response_def get_greeting_def transcript_append transcript_line_def Let_def)

theorem failed_call_history_witness:
  "greeting_prompt ''Ann''
      \<lparr>user_id = ''ann'', user_name = ''Ann'',
       memories = record_of ((default_fields ''Ann'' ''t0'')\<lparr>conversation_count := JInt 1\<rparr>)\<rparr>
     = Inr (first_greeting_prompt ''Ann'')
   \<and> (\<exists>b'. get_greeting
              \<lparr>user_id = ''ann'', user_name = ''Ann'',
               memories = record_of ((default_fields ''Ann'' ''t0'')\<lparr>conversation_count := JInt 1\<rparr>)\<rparr>
              Failure
              \<lparr>brain_user_id = ''ann'', brain_user_name = ''Ann'', conversation_history = []\<rparr>
            = Inr (fallback ''Ann'', b')
          \<and> conversation_history b'
              = [\<lparr>role = ''user'', content = first_greeting_prompt ''Ann''\<rparr>])"
proof -
  let ?um = "\<lparr>user_id = ''ann'', user_name = ''Ann'',
       memories = record_of ((default_fields ''Ann'' ''t0'')\<lparr>conversation_count := JInt 1\<rparr>)\<rparr>"
  let ?b = "\<lparr>brain_user_id = ''ann'', brain_user_name = ''Ann'', conversation_history = []\<rparr>"
  have h: "greeting_prompt ''Ann'' ?um = Inr (first_greeting_prompt ''Ann'')"
    by (simp add: greeting_prompt_def get_context_for_conversation_def family_part_def
        health_part_def interests_part_def recent_part_def count_part_def record_of_def
        default_fields_def)
  from failed_call_history [of "''hello''" ?b "''hi''" ?um] h show ?thesis
    by auto
qed


section \<open>Loading a record\<close>

text \<open>
  C8: a file whose text is not JSON, on which \<^verbatim>\<open>json.load\<close> raises
  \<^verbatim>\<open>JSONDecodeError\<close>, is treated as an absent file and gives the default record.
  A file whose bytes are not text, whose text nests too deep or holds a number too
  long is not: the \<^verbatim>\<open>except\<close> clause names \<^verbatim>\<open>json.JSONDecodeError\<close> only, and
  the constructor raises \<^verbatim>\<open>UnicodeDecodeError\<close>, \<^verbatim>\<open>RecursionError\<close> or
  \<^verbatim>\<open>ValueError\<close> to its caller.
\<close>

theorem corrupt_file_load:
  "UserMemory (fs(memory_file uid \<mapsto> Unreadable UnicodeDecodeError)) uid uname now
     = Inl UnicodeDecodeError
   \<and> UserMemory (fs(memory_file uid \<mapsto> Unreadable RecursionError)) uid uname now
       = Inl RecursionError
   \<and> UserMemory (fs(memory_file uid \<mapsto> Unreadable ValueError)) uid uname now
       = Inl ValueError
   \<and> UserMemory (fs(memory_file uid \<mapsto> NotJson)) uid uname now
       = UserMemory (fs(memory_file uid := None)) uid uname now
   \<and> UserMemory (fs(memory_file uid := None)) uid uname now
       = Inr \<lparr>user_id = uid, user_name = uname, memories = new_memories uname now\<rparr>"
  by (simp add: UserMemory_def load_memories_def)




section \<open>Persistence of the mutators\<close>

text \<open>
  C1, as amended: whenever \<^verbatim>\<open>increment_conversation\<close>, \<^verbatim>\<open>add_family_member\<close>,
  \<^verbatim>\<open>add_health_note\<close>, \<^verbatim>\<open>add_recent_topic\<close> or \<^verbatim>\<open>add_story\<close> returns, from any
  starting state, the record's \<^verbatim>\<open>last_conversation\<close> is the current time and the
  file holds the whole record, so that reading the file back gives the record in memory.
  Whenever \<^verbatim>\<open>add_interest\<close> returns, from any starting state and whatever
  \<^verbatim>\<open>str.lower\<close> does, it has done the same if the lowered interest was not among the
  lowered interests of the record, and it has left the record and the file unchanged
  if it was. On a record with every field and string interests it returns in both
  cases.
\<close>

theorem mutators_persist:
  "(increment_conversation now st = Inr st' \<longrightarrow> persisted now st')
   \<and> (add_family_member lower now name relation details st = Inr st' \<longrightarrow> persisted now st')
   \<and> (add_health_note now note st = Inr st' \<longrightarrow> persisted now st')
   \<and> (add_recent_topic now topic st = Inr st' \<longrightarrow> persisted now st')
   \<and> (add_story date now summary st = Inr st' \<longrightarrow> persisted now st')
   \<and> (add_interest lower now interest st = Inr st' \<longrightarrow>
         (interest_present lower interest (memories (fst st)) \<longrightarrow> st' = st)
         \<and> (\<not> interest_present lower interest (memories (fst st)) \<longrightarrow> persisted now st'))
   \<and> (persisted now st' \<longrightarrow>
         load_memories (snd st') (user_id (fst st')) uname t = Inr (memories (fst st')))
   \<and> (interests r = map JStr xs \<longrightarrow>
         interest_present lower (JStr x) (record_of r) = (lower x \<in> set (map lower xs))
         \<and> add_interest lower now (JStr x) (store_of um fs r)
           = Inr (if lower x \<in> set (map lower xs) then store_of um fs r
                  else saved_store um fs now (r\<lparr>interests := map JStr (xs @ [x])\<rparr>)))"
proof (intro conjI impI)
  show "increment_conversation now st = Inr st' \<Longrightarrow> persisted now st'"
    by (rule increment_conversation_persisted)
  show "add_family_member lower now name relation details st = Inr st' \<Longrightarrow> persisted now st'"
    by (rule add_family_member_persisted)
  show "add_health_note now note st = Inr st' \<Longrightarrow> persisted now st'"
    by (rule add_health_note_persisted)
  show "add_recent_topic now topic st = Inr st' \<Longrightarrow> persisted now st'"
    by (rule add_recent_topic_persisted)
  show "add_story date now summary st = Inr st' \<Longrightarrow> persisted now st'"
    by (rule add_story_persisted)
  show "add_interest lower now interest st = Inr st' \<Longrightarrow>
        interest_present lower interest (memories (fst st)) \<Longrightarrow> st' = st"
    using add_interest_returns by blast
  show "add_interest lower now interest st = Inr st' \<Longrightarrow>
        \<not> interest_present lower interest (memories (fst st)) \<Longrightarrow> persisted now st'"
    using add_interest_returns by blast
  show "persisted now st' \<Longrightarrow>
        load_memories (snd st') (user_id (fst st')) uname t = Inr (memories (fst st'))"
    by (rule persisted_read_back)
  show "interests r = map JStr xs \<Longrightarrow>
        interest_present lower (JStr x) (record_of r) = (lower x \<in> set (map lower xs))"
    by (simp add: interest_present_def profile_field_def record_of_def lower_all_strings)
  show "interests r = map JStr xs \<Longrightarrow>
        add_interest lower now (JStr x) (store_of um fs r)
          = Inr (if lower x \<in> set (map lower xs) then store_of um fs r
                 else saved_store um fs now (r\<lparr>interests := map JStr (xs @ [x])\<rparr>))"
    by (rule add_interest_record)
qed

theorem mutators_persist_witness:
  "(\<exists>st'. add_health_note ''t1'' (JStr ''knee pain'')
             (store_of \<lparr>user_id = ''ann'', user_name = ''Ann'', memories = JNull\<rparr> Map.empty
                (default_fields ''Ann'' ''t0'')) = Inr st'
          \<and> persisted ''t1'' st'
          \<and> load_memories (snd st') (user_id (fst st')) ''Ann'' ''t2'' = Inr (memories (fst st')))
   \<and> (\<exists>st'. add_interest str_lower ''t3'' (JStr ''Chess'')
             (store_of \<lparr>user_id = ''ann'', user_name = ''Ann'', memories = JNull\<rparr> Map.empty
                (default_fields ''Ann'' ''t0'')) = Inr st'
          \<and> persisted ''t3'' st')"
proof -
  let ?um = "\<lparr>user_id = ''ann'', user_name = ''Ann'', memories = JNull\<rparr>"
  let ?r = "default_fields ''Ann'' ''t0''"
  let ?st = "store_of ?um Map.empty ?r"
  let ?st' = "saved_store ?um Map.empty ''t1''
                (?r\<lparr>health_notes := last_n 10 (health_notes ?r @ [JStr ''knee pain''])\<rparr>)"
  let ?st'' = "saved_store ?um Map.empty ''t3'' (?r\<lparr>interests := map JStr ([] @ [''Chess''])\<rparr>)"
  have run: "add_health_note ''t1'' (JStr ''knee pain'') ?st = Inr ?st'"
    by (rule add_health_note_record)
  from mutators_persist
    [where now = "''t1''" and st = ?st and st' = ?st' and ?note = "JStr ''knee pain''"
       and uname = "''Ann''" and t = "''t2''"]
    run
  have a: "persisted ''t1'' ?st'
        \<and> load_memories (snd ?st') (user_id (fst ?st')) ''Ann'' ''t2'' = Inr (memories (fst ?st'))"
    by blast
  have i: "interests ?r = map JStr []"
    by (simp add: default_fields_def)
  from mutators_persist
    [where lower = str_lower and now = "''t3''" and r = ?r and xs = "[]" and x = "''Chess''"
       and um = ?um and fs = Map.empty and st = ?st and st' = ?st''
       and interest = "JStr ''Chess''"]
    i
  have absent: "\<not> interest_present str_lower (JStr ''Chess'') (record_of ?r)"
    and run2: "add_interest str_lower ''t3'' (JStr ''Chess'') ?st = Inr ?st''"
    by simp_all
  from absent have "\<not> interest_present str_lower (JStr ''Chess'') (memories (fst ?st))"
    by (simp add: store_of_def)
  with mutators_persist
    [where lower = str_lower and now = "''t3''" and st = ?st and st' = ?st''
       and interest = "JStr ''Chess''"]
    run2
  have b: "persisted ''t3'' ?st''"
    by blast
  from run a run2 b show ?thesis by blast
qed

text \<open>
  The claim as stated fails for \<^verbatim>\<open>add_interest\<close> on a duplicate: the record loaded
  from a file with the interest Gardening, last saved at t0, is given gardening at
  t1; the call returns with \<^verbatim>\<open>last_conversation\<close> still t0 in memory and in the
  file.
\<close>

theorem add_interest_duplicate_counterexample:
  "UserMemory
     [memory_file ''ann'' \<mapsto> JsonText (record_of ((default_fields ''Ann'' ''t0'')
        \<lparr>last_conversation := JStr ''t0'', interests := [JStr ''Gardening'']\<rparr>))]
     ''ann'' ''Ann'' ''t1''
   = Inr \<lparr>user_id = ''ann'', user_name = ''Ann'',
          memories = record_of ((default_fields ''Ann'' ''t0'')
            \<lparr>last_conversation := JStr ''t0'', interests := [JStr ''Gardening'']\<rparr>)\<rparr>
   \<and> add_interest str_lower ''t1'' (JStr ''gardening'')
       (\<lparr>user_id = ''ann'', user_name = ''Ann'',
         memories = record_of ((default_fields ''Ann'' ''t0'')
           \<lparr>last_conversation := JStr ''t0'', interests := [JStr ''Gardening'']\<rparr>)\<rparr>,
        [memory_file ''ann'' \<mapsto> JsonText (record_of ((default_fields ''Ann'' ''t0'')
           \<lparr>last_conversation := JStr ''t0'', interests := [JStr ''Gardening'']\<rparr>))])
     = Inr
       (\<lparr>user_id = ''ann'', user_name = ''Ann'',
         memories = record_of ((default_fields ''Ann'' ''t0'')
           \<lparr>last_conversation := JStr ''t0'', interests := [JStr ''Gardening'']\<rparr>)\<rparr>,
        [memory_file ''ann'' \<mapsto> JsonText (record_of ((default_fields ''Ann'' ''t0'')
           \<lparr>last_conversation := JStr ''t0'', interests := [JStr ''Gardening'']\<rparr>))])
   \<and> \<not> persisted ''t1''
       (\<lparr>user_id = ''ann'', user_name = ''Ann'',
         memories = record_of ((default_fields ''Ann'' ''t0'')
           \<lparr>last_conversation := JStr ''t0'', interests := [JStr ''Gardening'']\<rparr>)\<rparr>,
        [memory_file ''ann'' \<mapsto> JsonText (record_of ((default_fields ''Ann'' ''t0'')
           \<lparr>last_conversation := JStr ''t0'', interests := [JStr ''Gardening'']\<rparr>))])"
proof -
  have l: "str_lower ''gardening'' = ''gardening''" "str_lower ''Gardening'' = ''gardening''"
    by code_simp+
  show ?thesis
    by (simp add: UserMemory_def load_memories_def add_interest_def profile_field_def
        record_of_def default_fields_def persisted_def l)
qed

section \<open>Extraction without a JSON object\<close>

text \<open>
  C7: when the text of the provider's response has no span from an opening brace to a
  later closing brace, and when the span does not parse as JSON, the extraction returns
  the empty dict, raises nothing, and leaves the record in memory and the files as they
  were.
\<close>

theorem extraction_without_json:
  "(json_span text = None \<longleftrightarrow> \<not> (\<exists>pre mid post. text = pre @ ''{'' @ mid @ ''}'' @ post))
   \<and> (json_span text = None \<longrightarrow>
         extract_memories_from_conversation lower json_loads clock (Reply text) st = (JDict [], st))
   \<and> (\<forall>span. json_span text = Some span \<and> json_loads span = None \<longrightarrow>
         extract_memories_from_conversation lower json_loads clock (Reply text) st = (JDict [], st))"
proof (intro conjI)
  show "json_span text = None
          \<longleftrightarrow> \<not> (\<exists>pre mid post. text = pre @ ''{'' @ mid @ ''}'' @ post)"
    by (rule json_span_None_iff)
  show "json_span text = None \<longrightarrow>
          extract_memories_from_conversation lower json_loads clock (Reply text) st = (JDict [], st)"
    by (simp add: extract_memories_from_conversation_def)
  show "\<forall>span. json_span text = Some span \<and> json_loads span = None \<longrightarrow>
          extract_memories_from_conversation lower json_loads clock (Reply text) st = (JDict [], st)"
    by (simp add: extract_memories_from_conversation_def)
qed

theorem extraction_without_json_witness:
  "json_span ''Nothing to remember.'' = None
   \<and> extract_memories_from_conversation str_lower (\<lambda>s. None) (\<lambda>t. ''t1'')
        (Reply ''Nothing to remember.'')
        (\<lparr>user_id = ''ann'', user_name = ''Ann'', memories = new_memories ''Ann'' ''t0''\<rparr>,
         Map.empty)
      = (JDict [],
         (\<lparr>user_id = ''ann'', user_name = ''Ann'', memories = new_memories ''Ann'' ''t0''\<rparr>,
          Map.empty))
   \<and> json_span ''Here: {not json} ok'' = Some ''{not json}''
   \<and> extract_memories_from_conversation str_lower (\<lambda>s. None) (\<lambda>t. ''t1'')
        (Reply ''Here: {not json} ok'')
        (\<lparr>user_id = ''ann'', user_name = ''Ann'', memories = new_memories ''Ann'' ''t0''\<rparr>,
         Map.empty)
      = (JDict [],
         (\<lparr>user_id = ''ann'', user_name = ''Ann'', memories = new_memories ''Ann'' ''t0''\<rparr>,
          Map.empty))"
proof -
  have a: "json_span ''Nothing to remember.'' = None"
    by (simp add: json_span_def)
  have b: "json_span ''Here: {not json} ok'' = Some ''{not json}''"
    by (simp add: json_span_def)
  from a b
    extraction_without_json
      [where ?text = "''Nothing to remember.''" and lower = str_lower and json_loads = "\<lambda>s. None"
         and clock = "\<lambda>t. ''t1''"
         and st = "(\<lparr>user_id = ''ann'', user_name = ''Ann'',
                     memories = new_memories ''Ann'' ''t0''\<rparr>, Map.empty)"]
    extraction_without_json
      [where ?text = "''Here: {not json} ok''" and lower = str_lower and json_loads = "\<lambda>s. None"
         and clock = "\<lambda>t. ''t1''"
         and st = "(\<lparr>user_id = ''ann'', user_name = ''Ann'',
                     memories = new_memories ''Ann'' ''t0''\<rparr>, Map.empty)"]
  show ?thesis by simp
qed

section \<open>Bounded lists\<close>

text \<open>
  C3: after any sequence of mutator calls on a default record, every call returns, and
  the health notes are the last 10 notes given to \<^verbatim>\<open>add_health_note\<close>, the recent
  topics the last 5 topics given to \<^verbatim>\<open>add_recent_topic\<close> and the stories the last
  20 entries made by \<^verbatim>\<open>add_story\<close>, each in the order of the calls, the oldest
  dropped first.
\<close>

theorem bounded_lists_keep_most_recent:
  "\<exists>fs' r'.
     run_calls lower cs (\<lparr>user_id = uid, user_name = uname, memories = new_memories uname t0\<rparr>, fs)
       = Inr (\<lparr>user_id = uid, user_name = uname, memories = record_of r'\<rparr>, fs')
     \<and> health_notes r' = last_n 10 (concat (map health_note_of cs))
     \<and> recent_topics r' = last_n 5 (concat (map topic_of cs))
     \<and> stories r' = last_n 20 (concat (map story_of cs))"
proof -
  let ?um = "\<lparr>user_id = uid, user_name = uname, memories = new_memories uname t0\<rparr>"
  have start: "(?um, fs) = store_of ?um fs (default_fields uname t0)"
    by (simp add: store_of_def new_memories_fields)
  from run_calls_record
    [OF well_kept_default [of uname t0], where cs = cs and um = ?um and fs = fs
       and lower = lower]
  show ?thesis
    unfolding start by (simp add: store_of_def default_fields_def) blast
qed

theorem bounded_lists_keep_most_recent_witness:
  "\<exists>fs' r'.
     run_calls str_lower
       [(AddHealthNote ''n1'', ''d'', ''t1''), (AddHealthNote ''n2'', ''d'', ''t2''),
        (AddHealthNote ''n3'', ''d'', ''t3''), (AddHealthNote ''n4'', ''d'', ''t4''),
        (AddHealthNote ''n5'', ''d'', ''t5''), (AddHealthNote ''n6'', ''d'', ''t6''),
        (AddHealthNote ''n7'', ''d'', ''t7''), (AddHealthNote ''n8'', ''d'', ''t8''),
        (AddHealthNote ''n9'', ''d'', ''t9''), (AddHealthNote ''n10'', ''d'', ''t10''),
        (AddHealthNote ''n11'', ''d'', ''t11''),
        (AddRecentTopic ''a'', ''d'', ''t12''), (AddRecentTopic ''b'', ''d'', ''t13''),
        (AddRecentTopic ''c'', ''d'', ''t14''), (AddRecentTopic ''d'', ''d'', ''t15''),
        (AddRecentTopic ''e'', ''d'', ''t16''), (AddRecentTopic ''f'', ''d'', ''t17'')]
       (\<lparr>user_id = ''ann'', user_name = ''Ann'', memories = new_memories ''Ann'' ''t0''\<rparr>,
        Map.empty)
       = Inr (\<lparr>user_id = ''ann'', user_name = ''Ann'', memories = record_of r'\<rparr>, fs')
     \<and> health_notes r'
         = [JStr ''n2'', JStr ''n3'', JStr ''n4'', JStr ''n5'', JStr ''n6'', JStr ''n7'',
            JStr ''n8'', JStr ''n9'', JStr ''n10'', JStr ''n11'']
     \<and> recent_topics r' = [JStr ''b'', JStr ''c'', JStr ''d'', JStr ''e'', JStr ''f'']
     \<and> stories r' = []"
  using bounded_lists_keep_most_recent
    [where lower = str_lower and uid = "''ann''" and uname = "''Ann''" and ?t0.0 = "''t0''"
       and fs = Map.empty and cs = "[(AddHealthNote ''n1'', ''d'', ''t1''), (AddHealthNote ''n2'', ''d'', ''t2''),
        (AddHealthNote ''n3'', ''d'', ''t3''), (AddHealthNote ''n4'', ''d'', ''t4''),
        (AddHealthNote ''n5'', ''d'', ''t5''), (AddHealthNote ''n6'', ''d'', ''t6''),
        (AddHealthNote ''n7'', ''d'', ''t7''), (AddHealthNote ''n8'', ''d'', ''t8''),
        (AddHealthNote ''n9'', ''d'', ''t9''), (AddHealthNote ''n10'', ''d'', ''t10''),
        (AddHealthNote ''n11'', ''d'', ''t11''),
        (AddRecentTopic ''a'', ''d'', ''t12''), (AddRecentTopic ''b'', ''d'', ''t13''),
        (AddRecentTopic ''c'', ''d'', ''t14''), (AddRecentTopic ''d'', ''d'', ''t15''),
        (AddRecentTopic ''e'', ''d'', ''t16''), (AddRecentTopic ''f'', ''d'', ''t17'')]"]
  by (simp add: last_n_def)

section \<open>Family members and interests up to case\<close>

text \<open>
  C5, as amended: on a record whose members have string names, and whatever
  \<^verbatim>\<open>str.lower\<close> does to other strings as long as Emma and emma have the same lower
  case: when no member matches emma, adding Emma the granddaughter and then emma with
  the details plays soccer leaves the other members as they were and exactly one
  member matching emma, named Emma, granddaughter, plays soccer; when a member matches
  emma already, the two calls update the first such member in place, the list keeps
  its length and every member keeps the name it was stored with. An addition whose name
  matches a member up to case never appends: it updates the first matching member in
  place and saves.
\<close>

theorem add_family_member_updates_in_place:
  "list_all named (family_members r) \<longrightarrow>
     (lower ''Emma'' = lower ''emma'' \<and> \<not> list_ex (matches lower ''emma'') (family_members r) \<longrightarrow>
        (\<exists>fs'. run_calls lower
                 [(AddFamilyMember ''Emma'' ''granddaughter'' [], d1, t1),
                  (AddFamilyMember ''emma'' ''granddaughter'' ''plays soccer'', d2, t2)]
                 (store_of um fs r)
               = Inr (saved_store um fs' t2
                   (r\<lparr>family_members :=
                        family_members r
                          @ [member_entry ''Emma'' ''granddaughter'' ''plays soccer'']\<rparr>)))
        \<and> filter (matches lower ''emma'')
             (family_members r @ [member_entry ''Emma'' ''granddaughter'' ''plays soccer''])
           = [member_entry ''Emma'' ''granddaughter'' ''plays soccer''])
     \<and> (lower ''Emma'' = lower ''emma'' \<and> list_ex (matches lower ''emma'') (family_members r) \<longrightarrow>
          (\<exists>fs'. run_calls lower
                 [(AddFamilyMember ''Emma'' ''granddaughter'' [], d1, t1),
                  (AddFamilyMember ''emma'' ''granddaughter'' ''plays soccer'', d2, t2)]
                 (store_of um fs r)
               = Inr (saved_store um fs' t2
                   (r\<lparr>family_members :=
                        update_first lower ''emma'' (JStr ''granddaughter'') (JStr ''plays soccer'')
                          (update_first lower ''emma'' (JStr ''granddaughter'') (JStr [])
                             (family_members r))\<rparr>))))
     \<and> (list_ex (matches lower n) (family_members r) \<longrightarrow>
          add_family_member lower now (JStr n) rel det (store_of um fs r)
            = Inr (saved_store um fs now
                (r\<lparr>family_members := update_first lower n rel det (family_members r)\<rparr>)))
     \<and> length (update_first lower n rel det ms) = length ms
     \<and> map name_of (update_first lower n rel det ms) = map name_of ms"
proof (intro impI conjI)
  assume fam: "list_all named (family_members r)"
  {
    assume h: "lower ''Emma'' = lower ''emma''
                 \<and> \<not> list_ex (matches lower ''emma'') (family_members r)"
    then have emma: "lower ''Emma'' = lower ''emma''"
      and new: "\<not> list_ex (matches lower ''emma'') (family_members r)"
      by simp_all
    show "\<exists>fs'. run_calls lower
                 [(AddFamilyMember ''Emma'' ''granddaughter'' [], d1, t1),
                  (AddFamilyMember ''emma'' ''granddaughter'' ''plays soccer'', d2, t2)]
                 (store_of um fs r)
               = Inr (saved_store um fs' t2
                   (r\<lparr>family_members :=
                        family_members r
                          @ [member_entry ''Emma'' ''granddaughter'' ''plays soccer'']\<rparr>))"
      by (rule two_calls_new_member [OF fam emma new])
    have m2: "matches lower ''emma'' (member_entry ''Emma'' ''granddaughter'' ''plays soccer'')"
      by (simp add: matches_def name_of_def member_entry_def emma)
    from new have "filter (matches lower ''emma'') (family_members r) = []"
      by (simp add: list_ex_iff filter_empty_conv)
    with m2
    show "filter (matches lower ''emma'')
            (family_members r @ [member_entry ''Emma'' ''granddaughter'' ''plays soccer''])
          = [member_entry ''Emma'' ''granddaughter'' ''plays soccer'']"
      by simp
  }
  {
    assume h: "lower ''Emma'' = lower ''emma''
                 \<and> list_ex (matches lower ''emma'') (family_members r)"
    then have emma: "lower ''Emma'' = lower ''emma''"
      and old: "list_ex (matches lower ''emma'') (family_members r)"
      by simp_all
    show "\<exists>fs'. run_calls lower
                 [(AddFamilyMember ''Emma'' ''granddaughter'' [], d1, t1),
                  (AddFamilyMember ''emma'' ''granddaughter'' ''plays soccer'', d2, t2)]
                 (store_of um fs r)
               = Inr (saved_store um fs' t2
                   (r\<lparr>family_members :=
                        update_first lower ''emma'' (JStr ''granddaughter'') (JStr ''plays soccer'')
                          (update_first lower ''emma'' (JStr ''granddaughter'') (JStr [])
                             (family_members r))\<rparr>))"
      by (rule two_calls_existing_member [OF fam emma old])
  }
  {
    assume "list_ex (matches lower n) (family_members r)"
    then show "add_family_member lower now (JStr n) rel det (store_of um fs r)
            = Inr (saved_store um fs now
                (r\<lparr>family_members := update_first lower n rel det (family_members r)\<rparr>))"
      by (simp add: add_family_member_record [OF fam])
  }
  show "length (update_first lower n rel det ms) = length ms"
    by (rule length_update_first)
  show "map name_of (update_first lower n rel det ms) = map name_of ms"
    by (rule names_update_first)
qed

theorem add_family_member_updates_in_place_witness:
  "(\<exists>fs'. run_calls str_lower
            [(AddFamilyMember ''Emma'' ''granddaughter'' [], ''d1'', ''t1''),
             (AddFamilyMember ''emma'' ''granddaughter'' ''plays soccer'', ''d2'', ''t2'')]
            (store_of \<lparr>user_id = ''ann'', user_name = ''Ann'', memories = JNull\<rparr> Map.empty
               (default_fields ''Ann'' ''t0''))
          = Inr (saved_store \<lparr>user_id = ''ann'', user_name = ''Ann'', memories = JNull\<rparr> fs' ''t2''
              ((default_fields ''Ann'' ''t0'')
                 \<lparr>family_members := [member_entry ''Emma'' ''granddaughter'' ''plays soccer'']\<rparr>)))
   \<and> add_family_member str_lower ''t3'' (JStr ''EMMA'') (JStr ''grandchild'') (JStr [])
        (store_of \<lparr>user_id = ''ann'', user_name = ''Ann'', memories = JNull\<rparr> Map.empty
           ((default_fields ''Ann'' ''t0'')
              \<lparr>family_members := [member_entry ''Emma'' ''granddaughter'' ''plays soccer'']\<rparr>))
      = Inr (saved_store \<lparr>user_id = ''ann'', user_name = ''Ann'', memories = JNull\<rparr> Map.empty ''t3''
          ((default_fields ''Ann'' ''t0'')
             \<lparr>family_members := [member_entry ''Emma'' ''grandchild'' ''plays soccer'']\<rparr>))"
proof -
  let ?um = "\<lparr>user_id = ''ann'', user_name = ''Ann'', memories = JNull\<rparr>"
  let ?r0 = "default_fields ''Ann'' ''t0''"
  let ?r1 = "?r0\<lparr>family_members := [member_entry ''Emma'' ''granddaughter'' ''plays soccer'']\<rparr>"
  have l: "str_lower ''Emma'' = str_lower ''EMMA''" "str_lower ''Emma'' = str_lower ''emma''"
    by code_simp+
  have a: "list_all named (family_members ?r0)"
    and b: "\<not> list_ex (matches str_lower ''emma'') (family_members ?r0)"
    by (simp_all add: default_fields_def)
  have c: "list_all named (family_members ?r1)"
    and d: "list_ex (matches str_lower ''EMMA'') (family_members ?r1)"
    by (simp_all add: named_def member_entry_def matches_def name_of_def l)
  have e: "update_first str_lower ''EMMA'' (JStr ''grandchild'') (JStr []) (family_members ?r1)
             = [member_entry ''Emma'' ''grandchild'' ''plays soccer'']"
    by (simp add: member_entry_def matches_def name_of_def l with_relation_def)
  from add_family_member_updates_in_place
    [where lower = str_lower and r = ?r0 and ?d1.0 = "''d1''" and ?t1.0 = "''t1''"
       and ?d2.0 = "''d2''" and ?t2.0 = "''t2''" and um = ?um and fs = Map.empty]
    a b l(2)
  have first: "\<exists>fs'. run_calls str_lower
            [(AddFamilyMember ''Emma'' ''granddaughter'' [], ''d1'', ''t1''),
             (AddFamilyMember ''emma'' ''granddaughter'' ''plays soccer'', ''d2'', ''t2'')]
            (store_of ?um Map.empty ?r0)
          = Inr (saved_store ?um fs' ''t2'' ?r1)"
    by (simp add: default_fields_def)
  from add_family_member_updates_in_place
    [where lower = str_lower and r = ?r1 and um = ?um and fs = Map.empty and n = "''EMMA''"
       and now = "''t3''" and rel = "JStr ''grandchild''" and det = "JStr []"]
    c d e
  have second: "add_family_member str_lower ''t3'' (JStr ''EMMA'') (JStr ''grandchild'') (JStr [])
        (store_of ?um Map.empty ?r1)
      = Inr (saved_store ?um Map.empty ''t3''
          (?r0\<lparr>family_members := [member_entry ''Emma'' ''grandchild'' ''plays soccer'']\<rparr>))"
    by (simp add: default_fields_def)
  from first second show ?thesis by simp
qed

text \<open>
  The claim as stated fails on a record that holds the member EMMA: the two calls
  update that member and leave it named EMMA, not Emma.
\<close>

theorem add_family_member_stored_name_counterexample:
  "run_calls str_lower
     [(AddFamilyMember ''Emma'' ''granddaughter'' [], ''d1'', ''t1''),
      (AddFamilyMember ''emma'' ''granddaughter'' ''plays soccer'', ''d2'', ''t2'')]
     (store_of \<lparr>user_id = ''ann'', user_name = ''Ann'', memories = JNull\<rparr> Map.empty
        ((default_fields ''Ann'' ''t0'')
           \<lparr>family_members := [member_entry ''EMMA'' ''granddaughter'' []]\<rparr>))
   = Inr (saved_store \<lparr>user_id = ''ann'', user_name = ''Ann'', memories = JNull\<rparr> Map.empty ''t2''
       ((default_fields ''Ann'' ''t0'')
          \<lparr>family_members := [member_entry ''EMMA'' ''granddaughter'' ''plays soccer'']\<rparr>))
   \<and> map name_of [member_entry ''EMMA'' ''granddaughter'' ''plays soccer''] = [''EMMA'']
   \<and> ''EMMA'' \<noteq> ''Emma''"
proof -
  let ?um = "\<lparr>user_id = ''ann'', user_name = ''Ann'', memories = JNull\<rparr>"
  let ?r0 = "(default_fields ''Ann'' ''t0'')
               \<lparr>family_members := [member_entry ''EMMA'' ''granddaughter'' []]\<rparr>"
  let ?r1 = "?r0\<lparr>last_conversation := JStr ''t1''\<rparr>"
  let ?fs1 = "[memory_file ''ann'' \<mapsto> JsonText (record_of ?r1)]"
  have l: "str_lower ''EMMA'' = str_lower ''emma''" "str_lower ''Emma'' = str_lower ''emma''"
    by code_simp+
  have n0: "list_all named (family_members ?r0)" and n1: "list_all named (family_members ?r1)"
    by (simp_all add: named_def member_entry_def)
  have ex0: "list_ex (matches str_lower ''Emma'') [member_entry ''EMMA'' ''granddaughter'' []]"
    and ex1: "list_ex (matches str_lower ''emma'') [member_entry ''EMMA'' ''granddaughter'' []]"
    by (simp_all add: member_entry_def matches_def name_of_def l)
  have u0: "update_first str_lower ''Emma'' (JStr ''granddaughter'') (JStr [])
              [member_entry ''EMMA'' ''granddaughter'' []]
            = [member_entry ''EMMA'' ''granddaughter'' []]"
    and u1: "update_first str_lower ''emma'' (JStr ''granddaughter'') (JStr ''plays soccer'')
              [member_entry ''EMMA'' ''granddaughter'' []]
            = [member_entry ''EMMA'' ''granddaughter'' ''plays soccer'']"
    by (simp_all add: member_entry_def matches_def name_of_def l with_relation_def)
  from add_family_member_record
    [OF n0, where lower = str_lower and now = "''t1''" and n = "''Emma''"
       and rel = "JStr ''granddaughter''" and det = "JStr []" and um = ?um and fs = Map.empty]
    ex0 u0
  have first: "add_family_member str_lower ''t1'' (JStr ''Emma'') (JStr ''granddaughter'') (JStr [])
                 (store_of ?um Map.empty ?r0) = Inr (store_of ?um ?fs1 ?r1)"
    by (simp add: saved_store_as_store_of)
  from add_family_member_record
    [OF n1, where lower = str_lower and now = "''t2''" and n = "''emma''"
       and rel = "JStr ''granddaughter''" and det = "JStr ''plays soccer''" and um = ?um
       and fs = ?fs1]
    ex1 u1
  have second: "add_family_member str_lower ''t2'' (JStr ''emma'') (JStr ''granddaughter'')
                  (JStr ''plays soccer'') (store_of ?um ?fs1 ?r1)
                = Inr (saved_store ?um Map.empty ''t2''
                    ((default_fields ''Ann'' ''t0'')
                       \<lparr>family_members :=
                          [member_entry ''EMMA'' ''granddaughter'' ''plays soccer'']\<rparr>))"
    by (simp add: saved_store_def)
  have names: "map name_of [member_entry ''EMMA'' ''granddaughter'' ''plays soccer''] = [''EMMA'']"
    by (simp add: name_of_def member_entry_def)
  from first second names show ?thesis by simp
qed



section \<open>The context summary\<close>

text \<open>
  C2: \<^verbatim>\<open>get_context_for_conversation\<close> reads the record and changes nothing, and on
  every record whose fields are present and of the declared types it returns the text
  of the specification's algorithm: the name line, the first 5 family members with
  their details when they have any, the last 3 health notes, the first 5 interests, the
  last 3 topics and the count line when the count is positive, joined by newlines with
  the empty sections left out. On a default record it returns the name line alone.
\<close>

theorem context_summary_refines:
  "(view_of um = Some v \<longrightarrow> get_context_for_conversation um = Inr (contextSummary v))
   \<and> view_of \<lparr>user_id = uid, user_name = uname, memories = new_memories uname t0\<rparr>
       = Some \<lparr>view_name = uname, view_family = [], view_health = [], view_interests = [],
               view_topics = [], view_count = 0\<rparr>
   \<and> get_context_for_conversation
         \<lparr>user_id = uid, user_name = uname, memories = new_memories uname t0\<rparr>
       = Inr (''User's name: '' @ uname)"
proof (intro conjI impI)
  let ?um = "\<lparr>user_id = uid, user_name = uname, memories = new_memories uname t0\<rparr>"
  let ?v = "\<lparr>view_name = uname, view_family = [], view_health = [], view_interests = [],
             view_topics = [], view_count = 0\<rparr>"
  show "view_of um = Some v \<Longrightarrow> get_context_for_conversation um = Inr (contextSummary v)"
    by (rule context_summary_view)
  show fresh: "view_of ?um = Some ?v"
    by (simp add: view_of_def new_memories_def profile_field_def)
  from context_summary_view [OF fresh]
  show "get_context_for_conversation ?um = Inr (''User's name: '' @ uname)"
    by (simp add: contextSummary_def)
qed

theorem context_summary_refines_witness:
  "get_context_for_conversation
     \<lparr>user_id = ''ann'', user_name = ''Ann'',
      memories = record_of ((default_fields ''Ann'' ''t0'')
        \<lparr>family_members :=
           [member_entry ''Emma'' ''granddaughter'' ''plays soccer'', member_entry ''Bob'' ''son'' [],
            member_entry ''Cy'' ''brother'' [], member_entry ''Di'' ''sister'' [],
            member_entry ''Ed'' ''nephew'' [], member_entry ''Flo'' ''niece'' []],
         health_notes := [JStr ''a'', JStr ''b'', JStr ''c'', JStr ''d''],
         interests := [JStr ''chess''],
         recent_topics := [JStr ''garden''],
         conversation_count := JInt 3\<rparr>)\<rparr>
   = Inr (''User's name: Ann'' @ newline
          @ ''Family: Emma (granddaughter) - plays soccer, Bob (son), Cy (brother), Di (sister), Ed (nephew)''
          @ newline
          @ ''Health notes: b; c; d'' @ newline
          @ ''Interests: chess'' @ newline
          @ ''Recent conversation topics: garden'' @ newline
          @ ''You've had 3 conversations with Ann'')"
proof -
  let ?um = "\<lparr>user_id = ''ann'', user_name = ''Ann'',
      memories = record_of ((default_fields ''Ann'' ''t0'')
        \<lparr>family_members :=
           [member_entry ''Emma'' ''granddaughter'' ''plays soccer'', member_entry ''Bob'' ''son'' [],
            member_entry ''Cy'' ''brother'' [], member_entry ''Di'' ''sister'' [],
            member_entry ''Ed'' ''nephew'' [], member_entry ''Flo'' ''niece'' []],
         health_notes := [JStr ''a'', JStr ''b'', JStr ''c'', JStr ''d''],
         interests := [JStr ''chess''],
         recent_topics := [JStr ''garden''],
         conversation_count := JInt 3\<rparr>)\<rparr>"
  let ?v = "\<lparr>view_name = ''Ann'',
             view_family =
               [(''Emma'', ''granddaughter'', Some ''plays soccer''), (''Bob'', ''son'', None),
                (''Cy'', ''brother'', None), (''Di'', ''sister'', None),
                (''Ed'', ''nephew'', None), (''Flo'', ''niece'', None)],
             view_health = [''a'', ''b'', ''c'', ''d''], view_interests = [''chess''],
             view_topics = [''garden''], view_count = 3\<rparr>"
  have v: "view_of ?um = Some ?v"
    by (simp add: view_of_def record_of_def default_fields_def profile_field_def
        member_entry_def member_view_def)
  have s: "contextSummary ?v
      = ''User's name: Ann'' @ newline
          @ ''Family: Emma (granddaughter) - plays soccer, Bob (son), Cy (brother), Di (sister), Ed (nephew)''
          @ newline
          @ ''Health notes: b; c; d'' @ newline
          @ ''Interests: chess'' @ newline
          @ ''Recent conversation topics: garden'' @ newline
          @ ''You've had 3 conversations with Ann''"
    by code_simp
  from context_summary_refines [of ?um ?v] v
  have "get_context_for_conversation ?um = Inr (contextSummary ?v)"
    by blast
  then show ?thesis unfolding s .
qed

end
